theory Spec2Isabelle
  imports Main "HOL-Library.Log_Nat"
begin

section \<open>JavaScript values\<close>

text \<open>
  The route handlers of \<^verbatim>\<open>src/routes/*.js\<close> move JSON values between the HTTP request,
  the Stripe SDK and the HTTP response. A value is one of JavaScript's seven JSON-shaped
  kinds. An object is its list of own properties; a property read takes the first entry
  with that key.

  A Number is an IEEE binary64: not-a-number, the two infinities, or a finite value, held
  as the rational it denotes. Negative zero is identified with zero (no handler divides by
  a number or prints its sign).
\<close>

datatype jsnum = NaN | PosInf | NegInf | Fin rat

datatype jsval =
    JUndefined
  | JNull
  | JBool bool
  | JNum jsnum
  | JStr string
  | JArr "jsval list"
  | JObj "(string \<times> jsval) list"

text \<open>
  An exception value: an \<^verbatim>\<open>Error\<close> object with its message, the only part of it that a
  handler sends. (\<^verbatim>\<open>console.log\<close> and \<^verbatim>\<open>console.error\<close> write to the server's log and are
  left out.)
\<close>

datatype js_error = Error (message: string)

text \<open>\<^verbatim>\<open>ToBoolean\<close>: what \<^verbatim>\<open>!v\<close>, \<^verbatim>\<open>v ? a : b\<close> and \<^verbatim>\<open>v || w\<close> test.\<close>

fun truthy :: "jsval \<Rightarrow> bool" where
  "truthy JUndefined = False"
| "truthy JNull = False"
| "truthy (JBool b) = b"
| "truthy (JNum n) = (n \<noteq> NaN \<and> n \<noteq> Fin 0)"
| "truthy (JStr s) = (s \<noteq> [])"
| "truthy (JArr xs) = True"
| "truthy (JObj kvs) = True"

text \<open>\<^verbatim>\<open>a || b\<close>\<close>

definition js_or :: "jsval \<Rightarrow> jsval \<Rightarrow> jsval" where
  "js_or a b = (if truthy a then a else b)"

definition nullish :: "jsval \<Rightarrow> bool" where
  "nullish v = (v = JUndefined \<or> v = JNull)"

text \<open>
  The property read \<^verbatim>\<open>v.k\<close> on a value that is neither \<^verbatim>\<open>undefined\<close> nor \<^verbatim>\<open>null\<close>.
  The handlers read the names amount, created, currency, data, id, label,
  last_payment_error, location, metadata, object, payment_intent, payment_method, readerId,
  registration_code, simulated, status and type; no prototype of a primitive or of an array
  defines one of them, so only an object can hold them.
\<close>

fun get_prop :: "jsval \<Rightarrow> string \<Rightarrow> jsval" where
  "get_prop (JObj kvs) k = (case map_of kvs k of Some v \<Rightarrow> v | None \<Rightarrow> JUndefined)"
| "get_prop v k = JUndefined"

definition type_name :: "jsval \<Rightarrow> string" where
  "type_name v = (if v = JNull then ''null'' else ''undefined'')"

text \<open>
  Reading a property of \<^verbatim>\<open>undefined\<close> or \<^verbatim>\<open>null\<close> throws a \<^verbatim>\<open>TypeError\<close>, and so does
  destructuring one (\<^verbatim>\<open>const { k, ... } = v\<close>); the messages are V8's.
\<close>

definition member :: "jsval \<Rightarrow> string \<Rightarrow> js_error + jsval" where
  "member v k =
     (if nullish v
      then Inl (Error (''Cannot read properties of '' @ type_name v @ '' (reading '' @ [CHR 0x27] @ k @ [CHR 0x27] @ '')''))
      else Inr (get_prop v k))"

definition destructure :: "jsval \<Rightarrow> string \<Rightarrow> string \<Rightarrow> js_error + unit" where
  "destructure v k src =
     (if nullish v
      then Inl (Error (''Cannot destructure property '' @ [CHR 0x27] @ k @ [CHR 0x27] @ '' of '' @
                       [CHR 0x27] @ src @ [CHR 0x27] @ '' as it is '' @ type_name v @ ''.''))
      else Inr ())"

text \<open>A destructuring default \<^verbatim>\<open>{ k = d }\<close> applies when the property is \<^verbatim>\<open>undefined\<close>.\<close>

definition default_to :: "jsval \<Rightarrow> jsval \<Rightarrow> jsval" where
  "default_to d v = (if v = JUndefined then d else v)"

subsection \<open>Number arithmetic\<close>

text \<open>
  \<open>fl\<close> rounds a rational to the nearest binary64 (53 significant bits, ties to even,
  gradual underflow below 2 to the power -1022, overflow to an infinity), which is what \<^verbatim>\<open>*\<close> does to
  the exact product.
\<close>

definition pow2 :: "int \<Rightarrow> rat" where
  "pow2 k = (if 0 \<le> k then 2 ^ nat k else 1 / 2 ^ nat (- k))"

text \<open>\<open>\<lfloor>log\<^sub>2 x\<rfloor>\<close> for a positive \<open>x\<close>.\<close>

definition ilog2 :: "rat \<Rightarrow> int" where
  "ilog2 x = (if 1 \<le> x then bitlen \<lfloor>x\<rfloor> - 1 else - bitlen (\<lceil>1 / x\<rceil> - 1))"

definition round_half_even :: "rat \<Rightarrow> int" where
  "round_half_even x =
     (let n = \<lfloor>x\<rfloor>; d = x - of_int n
      in if d < 1 / 2 then n else if 1 / 2 < d then n + 1 else if even n then n else n + 1)"

definition fl :: "rat \<Rightarrow> jsnum" where
  "fl x =
     (if x = 0 then Fin 0
      else let u = pow2 (max (ilog2 \<bar>x\<bar>) (- 1022) - 52);
               r = of_int (round_half_even (\<bar>x\<bar> / u)) * u
           in if pow2 1024 \<le> r then (if 0 < x then PosInf else NegInf)
              else Fin (sgn x * r))"

fun num_sgn :: "jsnum \<Rightarrow> rat" where
  "num_sgn NaN = 0"
| "num_sgn PosInf = 1"
| "num_sgn NegInf = - 1"
| "num_sgn (Fin a) = sgn a"

text \<open>\<^verbatim>\<open>x * y\<close> on Numbers.\<close>

fun num_mul :: "jsnum \<Rightarrow> jsnum \<Rightarrow> jsnum" where
  "num_mul NaN y = NaN"
| "num_mul x NaN = NaN"
| "num_mul (Fin a) (Fin b) = fl (a * b)"
| "num_mul x y =
     (let s = num_sgn x * num_sgn y
      in if s = 0 then NaN else if 0 < s then PosInf else NegInf)"

text \<open>\<^verbatim>\<open>x <= y\<close> on Numbers: false as soon as one side is not-a-number.\<close>

fun num_le :: "jsnum \<Rightarrow> jsnum \<Rightarrow> bool" where
  "num_le NaN y = False"
| "num_le x NaN = False"
| "num_le NegInf y = True"
| "num_le x PosInf = True"
| "num_le PosInf y = False"
| "num_le x NegInf = False"
| "num_le (Fin a) (Fin b) = (a \<le> b)"

text \<open>\<^verbatim>\<open>Math.round\<close>: the nearest integer, a tie going up.\<close>

fun Math_round :: "jsnum \<Rightarrow> jsnum" where
  "Math_round (Fin x) = Fin (of_int \<lfloor>x + 1 / 2\<rfloor>)"
| "Math_round n = n"

subsection \<open>Converting values to Numbers\<close>

text \<open>
  A string is the list of the bytes of its UTF-8 encoding. \<^verbatim>\<open>StringToNumber\<close> trims the white
  space and line terminators of the language (the code points 9 to 13, 32, U+00A0, U+1680,
  U+2000 to U+200A, U+2028, U+2029, U+202F, U+205F, U+3000 and U+FEFF) and reads what is
  left as a \<^verbatim>\<open>StrNumericLiteral\<close>: empty, an optionally signed \<^verbatim>\<open>Infinity\<close> or decimal literal
  with optional fraction and exponent, or an unsigned binary, octal or hexadecimal integer.
  Anything else is not-a-number. The literal's value is rounded to the nearest binary64.
\<close>

definition white_space :: "string list" where
  "white_space =
     [CHR 0x09] # [CHR 0x0A] # [CHR 0x0B] # [CHR 0x0C] # [CHR 0x0D] # [CHR 0x20] #
     [CHR 0xC2, CHR 0xA0] #
     [CHR 0xE1, CHR 0x9A, CHR 0x80] #
     [CHR 0xE2, CHR 0x80, CHR 0x80] # [CHR 0xE2, CHR 0x80, CHR 0x81] #
     [CHR 0xE2, CHR 0x80, CHR 0x82] # [CHR 0xE2, CHR 0x80, CHR 0x83] #
     [CHR 0xE2, CHR 0x80, CHR 0x84] # [CHR 0xE2, CHR 0x80, CHR 0x85] #
     [CHR 0xE2, CHR 0x80, CHR 0x86] # [CHR 0xE2, CHR 0x80, CHR 0x87] #
     [CHR 0xE2, CHR 0x80, CHR 0x88] # [CHR 0xE2, CHR 0x80, CHR 0x89] #
     [CHR 0xE2, CHR 0x80, CHR 0x8A] #
     [CHR 0xE2, CHR 0x80, CHR 0xA8] # [CHR 0xE2, CHR 0x80, CHR 0xA9] #
     [CHR 0xE2, CHR 0x80, CHR 0xAF] #
     [CHR 0xE2, CHR 0x81, CHR 0x9F] #
     [CHR 0xE3, CHR 0x80, CHR 0x80] #
     [CHR 0xEF, CHR 0xBB, CHR 0xBF] # []"

text \<open>The number of bytes of the white-space character a string starts or ends with, if any.\<close>

definition leading_space :: "string \<Rightarrow> nat" where
  "leading_space s =
     (if take 1 s \<in> set white_space then 1
      else if take 2 s \<in> set white_space then 2
      else if take 3 s \<in> set white_space then 3 else 0)"

definition trailing_space :: "string \<Rightarrow> nat" where
  "trailing_space s =
     (if drop (length s - 1) s \<in> set white_space then 1
      else if drop (length s - 2) s \<in> set white_space then 2
      else if drop (length s - 3) s \<in> set white_space then 3 else 0)"

fun trim_start :: "nat \<Rightarrow> string \<Rightarrow> string" where
  "trim_start 0 s = s"
| "trim_start (Suc n) s =
     (if leading_space s = 0 then s else trim_start n (drop (leading_space s) s))"

fun trim_end :: "nat \<Rightarrow> string \<Rightarrow> string" where
  "trim_end 0 s = s"
| "trim_end (Suc n) s =
     (if trailing_space s = 0 then s
      else trim_end n (take (length s - trailing_space s) s))"

definition trim :: "string \<Rightarrow> string" where
  "trim s = trim_end (length s) (trim_start (length s) s)"

definition digit_value :: "char \<Rightarrow> nat option" where
  "digit_value c =
     (let n = of_char c :: nat
      in if 48 \<le> n \<and> n \<le> 57 then Some (n - 48)
         else if 97 \<le> n \<and> n \<le> 102 then Some (n - 87)
         else if 65 \<le> n \<and> n \<le> 70 then Some (n - 55)
         else None)"

definition is_digit :: "nat \<Rightarrow> char \<Rightarrow> bool" where
  "is_digit base c = (case digit_value c of Some d \<Rightarrow> d < base | None \<Rightarrow> False)"

definition digits_value :: "nat \<Rightarrow> string \<Rightarrow> nat" where
  "digits_value base ds =
     foldl (\<lambda>n c. n * base + (case digit_value c of Some d \<Rightarrow> d | None \<Rightarrow> 0)) 0 ds"

definition pow10 :: "int \<Rightarrow> rat" where
  "pow10 k = (if 0 \<le> k then 10 ^ nat k else 1 / 10 ^ nat (- k))"

text \<open>The exponent that ends a decimal literal (zero when nothing is left to read).\<close>

definition ExponentPart :: "string \<Rightarrow> int option" where
  "ExponentPart s =
     (case s of
        [] \<Rightarrow> Some 0
      | c # r \<Rightarrow>
          if c = CHR ''e'' \<or> c = CHR ''E'' then
            (let ds = (if take 1 r = ''+'' \<or> take 1 r = ''-'' then drop 1 r else r)
             in if ds \<noteq> [] \<and> list_all (is_digit 10) ds
                then Some (if take 1 r = ''-'' then - int (digits_value 10 ds)
                           else int (digits_value 10 ds))
                else None)
          else None)"

definition StrUnsignedDecimalLiteral :: "string \<Rightarrow> rat option" where
  "StrUnsignedDecimalLiteral s =
     (let ip = takeWhile (is_digit 10) s;
          r = dropWhile (is_digit 10) s;
          fp = (if take 1 r = ''.'' then takeWhile (is_digit 10) (drop 1 r) else []);
          r' = (if take 1 r = ''.'' then dropWhile (is_digit 10) (drop 1 r) else r)
      in if ip = [] \<and> fp = [] then None
         else case ExponentPart r' of
                None \<Rightarrow> None
              | Some e \<Rightarrow>
                  Some (of_nat (digits_value 10 (ip @ fp)) * pow10 (e - int (length fp))))"

definition NonDecimalIntegerLiteral :: "string \<Rightarrow> rat option" where
  "NonDecimalIntegerLiteral s =
     (let p = take 2 s; ds = drop 2 s;
          base = (if p = ''0x'' \<or> p = ''0X'' then 16
                  else if p = ''0o'' \<or> p = ''0O'' then 8
                  else if p = ''0b'' \<or> p = ''0B'' then 2 else 0 :: nat)
      in if base \<noteq> 0 \<and> ds \<noteq> [] \<and> list_all (is_digit base) ds
         then Some (of_nat (digits_value base ds)) else None)"

definition StringToNumber :: "string \<Rightarrow> jsnum" where
  "StringToNumber str =
     (let s = trim str;
          signed = (take 1 s = ''+'' \<or> take 1 s = ''-'');
          u = (if signed then drop 1 s else s);
          neg = (take 1 s = ''-'')
      in if s = [] then Fin 0
         else if u = ''Infinity'' then (if neg then NegInf else PosInf)
         else case StrUnsignedDecimalLiteral u of
                Some v \<Rightarrow> fl (if neg then - v else v)
              | None \<Rightarrow>
                  if signed then NaN
                  else case NonDecimalIntegerLiteral s of
                         Some v \<Rightarrow> fl v
                       | None \<Rightarrow> NaN)"

text \<open>
  An object or array becomes a primitive through its \<^verbatim>\<open>valueOf\<close> and \<^verbatim>\<open>toString\<close>. The
  inherited \<^verbatim>\<open>valueOf\<close> returns the object itself and is passed over, and an own property of a
  parsed object is never callable; so the conversion throws a \<^verbatim>\<open>TypeError\<close> exactly when the
  object has an own \<^verbatim>\<open>toString\<close> property, and gives \<^verbatim>\<open>"[object Object]"\<close> otherwise. An array
  joins the strings of its elements with commas (nothing for \<^verbatim>\<open>null\<close> and \<^verbatim>\<open>undefined\<close>), and
  throws where one of them does.
\<close>

fun to_primitive_throws :: "jsval \<Rightarrow> bool" where
  "to_primitive_throws (JObj kvs) = (map_of kvs ''toString'' \<noteq> None)"
| "to_primitive_throws (JArr xs) = list_ex to_primitive_throws xs"
| "to_primitive_throws v = False"

text \<open>
  The Number read from the string of an array that converts: the empty string of the empty
  array is zero, a string with a comma is not a number, and the string of a single element
  is read as that element's (a Number gives itself back).
\<close>

fun array_number :: "jsval \<Rightarrow> jsnum" where
  "array_number (JArr []) = Fin 0"
| "array_number (JArr [JUndefined]) = Fin 0"
| "array_number (JArr [JNull]) = Fin 0"
| "array_number (JArr [JNum n]) = n"
| "array_number (JArr [JStr s]) = StringToNumber s"
| "array_number (JArr [JArr ys]) = array_number (JArr ys)"
| "array_number v = NaN"

text \<open>\<^verbatim>\<open>ToNumber\<close>, as \<^verbatim>\<open><=\<close> and \<^verbatim>\<open>*\<close> apply it to an operand.\<close>

fun ToNumber :: "jsval \<Rightarrow> js_error + jsnum" where
  "ToNumber JUndefined = Inr NaN"
| "ToNumber JNull = Inr (Fin 0)"
| "ToNumber (JBool b) = Inr (Fin (if b then 1 else 0))"
| "ToNumber (JNum n) = Inr n"
| "ToNumber (JStr s) = Inr (StringToNumber s)"
| "ToNumber (JArr xs) =
     (if to_primitive_throws (JArr xs)
      then Inl (Error ''Cannot convert object to primitive value'')
      else Inr (array_number (JArr xs)))"
| "ToNumber (JObj kvs) =
     (if to_primitive_throws (JObj kvs)
      then Inl (Error ''Cannot convert object to primitive value'')
      else Inr NaN)"

text \<open>\<^verbatim>\<open>v <= n\<close> and \<^verbatim>\<open>v * n\<close> with a Number on the right.\<close>

definition js_le :: "jsval \<Rightarrow> jsnum \<Rightarrow> js_error + bool" where
  "js_le v n = (case ToNumber v of Inl e \<Rightarrow> Inl e | Inr m \<Rightarrow> Inr (num_le m n))"

definition js_mul :: "jsval \<Rightarrow> jsnum \<Rightarrow> js_error + jsnum" where
  "js_mul v n = (case ToNumber v of Inl e \<Rightarrow> Inl e | Inr m \<Rightarrow> Inr (num_mul m n))"

text \<open>The variables of the process environment that the program reads.\<close>

record js_env =
  STRIPE_WEBHOOK_SECRET :: jsval
  NODE_ENV :: jsval

section \<open>The Stripe SDK\<close>

text \<open>
  The SDK operations the handlers call, with their arguments. Every one of them either
  returns a value or throws.
\<close>

datatype sdk_call =
    Terminal_Readers_List
  | Terminal_Readers_Create jsval
  | Terminal_Readers_Retrieve jsval
  | Terminal_Readers_ProcessPaymentIntent jsval jsval
  | TestHelpers_Terminal_Readers_PresentPaymentMethod jsval
  | PaymentIntents_Create jsval
  | PaymentIntents_Capture jsval
  | PaymentIntents_Cancel jsval
  | PaymentIntents_Retrieve jsval
  | Webhooks_ConstructEvent jsval jsval jsval

datatype sdk_method =
    terminal_readers_list
  | terminal_readers_create
  | terminal_readers_retrieve
  | terminal_readers_processPaymentIntent
  | testHelpers_terminal_readers_presentPaymentMethod
  | paymentIntents_create
  | paymentIntents_capture
  | paymentIntents_cancel
  | paymentIntents_retrieve
  | webhooks_constructEvent

fun method_of :: "sdk_call \<Rightarrow> sdk_method" where
  "method_of Terminal_Readers_List = terminal_readers_list"
| "method_of (Terminal_Readers_Create p) = terminal_readers_create"
| "method_of (Terminal_Readers_Retrieve i) = terminal_readers_retrieve"
| "method_of (Terminal_Readers_ProcessPaymentIntent i p) = terminal_readers_processPaymentIntent"
| "method_of (TestHelpers_Terminal_Readers_PresentPaymentMethod i) =
     testHelpers_terminal_readers_presentPaymentMethod"
| "method_of (PaymentIntents_Create p) = paymentIntents_create"
| "method_of (PaymentIntents_Capture i) = paymentIntents_capture"
| "method_of (PaymentIntents_Cancel i) = paymentIntents_cancel"
| "method_of (PaymentIntents_Retrieve i) = paymentIntents_retrieve"
| "method_of (Webhooks_ConstructEvent b s k) = webhooks_constructEvent"

text \<open>
  The SDK is an oracle: for the request being served, it answers each call with a thrown
  error (\<open>Inl\<close>) or a returned value (\<open>Inr\<close>). No handler makes the same call twice, so a
  function of the call gives every behaviour of the remote service during one request.
\<close>

type_synonym stripe = "sdk_call \<Rightarrow> js_error + jsval"

section \<open>Handlers as computations\<close>

text \<open>
  A handler body runs with the list of the SDK calls made so far, may throw, and returns the
  list extended by its own calls.
\<close>

type_synonym 'a io = "sdk_call list \<Rightarrow> (js_error + 'a) \<times> sdk_call list"

definition io_return :: "'a \<Rightarrow> 'a io" where
  "io_return x = (\<lambda>t. (Inr x, t))"

definition io_bind :: "'a io \<Rightarrow> ('a \<Rightarrow> 'b io) \<Rightarrow> 'b io" where
  "io_bind m f = (\<lambda>t. case m t of (Inl e, t') \<Rightarrow> (Inl e, t') | (Inr x, t') \<Rightarrow> f x t')"

text \<open>A step that may throw but calls nothing.\<close>

definition io_of :: "js_error + 'a \<Rightarrow> 'a io" where
  "io_of r = (\<lambda>t. (r, t))"

text \<open>\<^verbatim>\<open>try { m } catch (error) { h }\<close>\<close>

definition try_catch :: "'a io \<Rightarrow> (js_error \<Rightarrow> 'a io) \<Rightarrow> 'a io" where
  "try_catch m h = (\<lambda>t. case m t of (Inl e, t') \<Rightarrow> h e t' | (Inr x, t') \<Rightarrow> (Inr x, t'))"

text \<open>\<^verbatim>\<open>await stripe.\<dots>(\<dots>)\<close>: the call is recorded, its answer returned or thrown.\<close>

definition await :: "stripe \<Rightarrow> sdk_call \<Rightarrow> jsval io" where
  "await stripe c = (\<lambda>t. (stripe c, t @ [c]))"

subsection \<open>Requests and responses\<close>

text \<open>
  What a handler reads of a request: the route parameters, the headers, and the body as
  \<^verbatim>\<open>express.json()\<close> and \<^verbatim>\<open>express.urlencoded()\<close> of \<^verbatim>\<open>index.js\<close> left it, the parsed
  value (the webhook route's own \<^verbatim>\<open>express.raw\<close> comes after them and leaves a parsed body
  as it is). A handler that destructures the body throws when there is none.
\<close>

record request =
  params :: "(string \<times> string) list"
  headers :: "(string \<times> string) list"
  body :: jsval

definition param :: "request \<Rightarrow> string \<Rightarrow> jsval" where
  "param req k = (case map_of (params req) k of Some s \<Rightarrow> JStr s | None \<Rightarrow> JUndefined)"

definition header :: "request \<Rightarrow> string \<Rightarrow> jsval" where
  "header req k = (case map_of (headers req) k of Some s \<Rightarrow> JStr s | None \<Rightarrow> JUndefined)"

text \<open>What was sent: \<^verbatim>\<open>res.json(v)\<close> sends the JSON text of \<open>v\<close>, \<^verbatim>\<open>res.send(s)\<close> the string.\<close>

datatype payload = Json jsval | Text string

record response =
  status :: nat
  sent :: payload

text \<open>\<^verbatim>\<open>res.status(n).json(v)\<close> and \<^verbatim>\<open>res.status(n).send(s)\<close>\<close>

definition res_json :: "nat \<Rightarrow> jsval \<Rightarrow> response io" where
  "res_json n v = io_return \<lparr>status = n, sent = Json v\<rparr>"

definition res_send :: "nat \<Rightarrow> string \<Rightarrow> response io" where
  "res_send n s = io_return \<lparr>status = n, sent = Text s\<rparr>"

text \<open>The \<^verbatim>\<open>catch\<close> block that every handler but the webhook's ends with.\<close>

definition catch_500 :: "js_error \<Rightarrow> response io" where
  "catch_500 error =
     res_json 500 (JObj [(''status'', JStr ''error''), (''message'', JStr (message error))])"

definition error_json :: "nat \<Rightarrow> string \<Rightarrow> response io" where
  "error_json n msg = res_json n (JObj [(''status'', JStr ''error''), (''message'', JStr msg)])"

section \<open>reader.routes.js\<close>

text \<open>\<^verbatim>\<open>router.get("/")\<close>\<close>

definition get_readers :: "stripe \<Rightarrow> request \<Rightarrow> response io" where
  "get_readers stripe req =
     try_catch
       (io_bind (await stripe Terminal_Readers_List) (\<lambda>readers.
        io_bind (io_of (member readers ''data'')) (\<lambda>data.
        res_json 200 (JObj [(''status'', JStr ''success''), (''readers'', data)]))))
       catch_500"

text \<open>\<^verbatim>\<open>router.post("/register")\<close>\<close>

definition post_register :: "stripe \<Rightarrow> request \<Rightarrow> response io" where
  "post_register stripe req =
     try_catch
       (io_bind (io_of (destructure (body req) ''registration_code'' ''req.body'')) (\<lambda>_.
        let registration_code = get_prop (body req) ''registration_code'';
            label = get_prop (body req) ''label'';
            location = get_prop (body req) ''location'';
            simulated = default_to (JBool False) (get_prop (body req) ''simulated'');
            regCode = (if truthy simulated then JStr ''simulated-wpe'' else registration_code)
        in if \<not> truthy regCode
           then error_json 400 ''Registration code is required for physical readers''
           else
             let readerParams = JObj
                   [(''registration_code'', regCode),
                    (''label'',
                       js_or label (if truthy simulated then JStr ''Simulated Reader'' else JUndefined)),
                    (''location'',
                       js_or location (if truthy simulated then JStr ''test_mode'' else JUndefined))]
             in io_bind (await stripe (Terminal_Readers_Create readerParams)) (\<lambda>reader.
                res_json 201 (JObj [(''status'', JStr ''success''), (''reader'', reader)]))))
       catch_500"

text \<open>\<^verbatim>\<open>router.get("/:readerId")\<close>\<close>

definition get_reader :: "stripe \<Rightarrow> request \<Rightarrow> response io" where
  "get_reader stripe req =
     try_catch
       (let readerId = param req ''readerId''
        in io_bind (await stripe (Terminal_Readers_Retrieve readerId)) (\<lambda>reader.
           res_json 200 (JObj [(''status'', JStr ''success''), (''reader'', reader)])))
       catch_500"

section \<open>payment.routes.js\<close>

text \<open>\<^verbatim>\<open>simulatedReaderConfig.testMode.defaultCurrency\<close> of \<^verbatim>\<open>config/simulated-reader.js\<close>\<close>

definition defaultCurrency :: string where
  "defaultCurrency = ''usd''"

text \<open>
  The parameters both payment-creating handlers pass to \<^verbatim>\<open>stripe.paymentIntents.create\<close>,
  given the product \<^verbatim>\<open>amount * 100\<close>.
\<close>

definition payment_intent_params :: "jsnum \<Rightarrow> jsval \<Rightarrow> jsval \<Rightarrow> jsval" where
  "payment_intent_params product currency readerId = JObj
     [(''amount'', JNum (Math_round product)),
      (''currency'', currency),
      (''payment_method_types'', JArr [JStr ''card_present'']),
      (''capture_method'', JStr ''manual''),
      (''metadata'', JObj [(''readerId'', readerId)])]"

text \<open>\<^verbatim>\<open>router.post("/create-payment-intent")\<close>\<close>

definition post_create_payment_intent :: "stripe \<Rightarrow> request \<Rightarrow> response io" where
  "post_create_payment_intent stripe req =
     try_catch
       (io_bind (io_of (destructure (body req) ''amount'' ''req.body'')) (\<lambda>_.
        let amount = get_prop (body req) ''amount'';
            currency = default_to (JStr defaultCurrency) (get_prop (body req) ''currency'');
            readerId = get_prop (body req) ''readerId'';
            simulated = default_to (JBool False) (get_prop (body req) ''simulated'')
        in io_bind (if \<not> truthy amount then io_return True else io_of (js_le amount (Fin 0)))
             (\<lambda>invalid.
           if invalid
           then error_json 400 ''Valid amount is required''
           else if \<not> truthy readerId
           then error_json 400 ''Reader ID is required''
           else
             io_bind (await stripe (Terminal_Readers_Retrieve readerId)) (\<lambda>reader.
             if \<not> truthy reader
             then error_json 404 ''Reader not found''
             else if \<not> truthy simulated \<and> get_prop reader ''status'' \<noteq> JStr ''online''
             then error_json 400 ''Reader is not online''
             else
               io_bind (io_of (js_mul amount (Fin 100))) (\<lambda>product.
               io_bind (await stripe
                          (PaymentIntents_Create (payment_intent_params product currency readerId)))
                 (\<lambda>paymentIntent.
               res_json 200
                 (JObj [(''status'', JStr ''success''), (''paymentIntent'', paymentIntent)])))))))
       catch_500"

text \<open>\<^verbatim>\<open>router.post("/capture-payment/:paymentIntentId")\<close>\<close>

definition post_capture_payment :: "stripe \<Rightarrow> request \<Rightarrow> response io" where
  "post_capture_payment stripe req =
     try_catch
       (let paymentIntentId = param req ''paymentIntentId''
        in io_bind (await stripe (PaymentIntents_Capture paymentIntentId)) (\<lambda>paymentIntent.
           res_json 200
             (JObj [(''status'', JStr ''success''), (''paymentIntent'', paymentIntent)])))
       catch_500"

text \<open>\<^verbatim>\<open>router.post("/cancel-payment/:paymentIntentId")\<close>\<close>

definition post_cancel_payment :: "stripe \<Rightarrow> request \<Rightarrow> response io" where
  "post_cancel_payment stripe req =
     try_catch
       (let paymentIntentId = param req ''paymentIntentId''
        in io_bind (await stripe (PaymentIntents_Cancel paymentIntentId)) (\<lambda>paymentIntent.
           res_json 200
             (JObj [(''status'', JStr ''success''), (''paymentIntent'', paymentIntent)])))
       catch_500"

text \<open>
  \<^verbatim>\<open>router.post("/webhook")\<close>. The \<^verbatim>\<open>switch\<close> on the event's type assembles the local
  \<^verbatim>\<open>response\<close>; \<^verbatim>\<open>console.log\<close> reads the payment intent's id on the way.
\<close>

definition event_response :: "jsval \<Rightarrow> jsval io" where
  "event_response event =
     io_bind (io_of (member event ''type'')) (\<lambda>type.
     if type = JStr ''payment_intent.succeeded'' then
       io_bind (io_of (member (get_prop event ''data'') ''object'')) (\<lambda>paymentIntent.
       io_bind (io_of (member paymentIntent ''id'')) (\<lambda>logged.
       io_return (JObj
         [(''received'', JBool True),
          (''status'', JStr ''success''),
          (''payment_intent'', JObj
             [(''id'', get_prop paymentIntent ''id''),
              (''status'', get_prop paymentIntent ''status''),
              (''amount'', get_prop paymentIntent ''amount''),
              (''currency'', get_prop paymentIntent ''currency''),
              (''payment_method'', get_prop paymentIntent ''payment_method''),
              (''created'', get_prop paymentIntent ''created''),
              (''metadata'', get_prop paymentIntent ''metadata'')])])))
     else if type = JStr ''payment_intent.payment_failed'' then
       io_bind (io_of (member (get_prop event ''data'') ''object'')) (\<lambda>failedPayment.
       io_bind (io_of (member failedPayment ''id'')) (\<lambda>logged.
       io_return (JObj
         [(''received'', JBool True),
          (''status'', JStr ''failed''),
          (''payment_intent'', JObj
             [(''id'', get_prop failedPayment ''id''),
              (''status'', get_prop failedPayment ''status''),
              (''amount'', get_prop failedPayment ''amount''),
              (''currency'', get_prop failedPayment ''currency''),
              (''error'', get_prop failedPayment ''last_payment_error''),
              (''created'', get_prop failedPayment ''created''),
              (''metadata'', get_prop failedPayment ''metadata'')])])))
     else io_return (JObj [(''received'', JBool True)]))"

definition post_webhook :: "js_env \<Rightarrow> stripe \<Rightarrow> request \<Rightarrow> response io" where
  "post_webhook E stripe req =
     (let sig = header req ''stripe-signature''
      in try_catch
           (io_bind (await stripe
                       (Webhooks_ConstructEvent (body req) sig (STRIPE_WEBHOOK_SECRET E)))
              (\<lambda>event.
            io_bind (event_response event) (\<lambda>response.
            res_json 200 (JObj [(''received'', JBool True)]))))
           (\<lambda>error. res_send 400 (''Webhook Error: '' @ message error)))"

text \<open>\<^verbatim>\<open>router.post("/process-payment/:readerId")\<close>\<close>

definition post_process_payment :: "stripe \<Rightarrow> request \<Rightarrow> response io" where
  "post_process_payment stripe req =
     try_catch
       (let readerId = param req ''readerId''
        in io_bind (io_of (destructure (body req) ''payment_intent'' ''req.body'')) (\<lambda>_.
           let payment_intent = get_prop (body req) ''payment_intent''
           in if \<not> truthy payment_intent
              then error_json 400 ''Payment intent ID is required''
              else
                io_bind (await stripe (Terminal_Readers_Retrieve readerId)) (\<lambda>reader.
                if \<not> truthy reader
                then error_json 404 ''Reader not found''
                else if get_prop reader ''status'' \<noteq> JStr ''online''
                then error_json 400 ''Reader is not online''
                else
                  io_bind (await stripe
                             (Terminal_Readers_ProcessPaymentIntent readerId
                                (JObj [(''payment_intent'', payment_intent)])))
                    (\<lambda>processedReader.
                  res_json 200
                    (JObj [(''status'', JStr ''success''), (''reader'', processedReader)])))))
       catch_500"

text \<open>\<^verbatim>\<open>router.post("/simulate-payment/:readerId")\<close>\<close>

definition post_simulate_payment :: "stripe \<Rightarrow> request \<Rightarrow> response io" where
  "post_simulate_payment stripe req =
     try_catch
       (let readerId = param req ''readerId''
        in io_bind (await stripe (Terminal_Readers_Retrieve readerId)) (\<lambda>reader.
           if \<not> truthy reader
           then error_json 404 ''Reader not found''
           else
             io_bind (await stripe (TestHelpers_Terminal_Readers_PresentPaymentMethod readerId))
               (\<lambda>simulatedReader.
             res_json 200
               (JObj [(''status'', JStr ''success''), (''reader'', simulatedReader)]))))
       catch_500"

text \<open>\<^verbatim>\<open>router.post("/create-and-process-payment/:readerId")\<close>\<close>

definition post_create_and_process_payment :: "stripe \<Rightarrow> request \<Rightarrow> response io" where
  "post_create_and_process_payment stripe req =
     try_catch
       (let readerId = param req ''readerId''
        in io_bind (io_of (destructure (body req) ''amount'' ''req.body'')) (\<lambda>_.
           let amount = get_prop (body req) ''amount'';
               currency = default_to (JStr defaultCurrency) (get_prop (body req) ''currency'');
               simulated = default_to (JBool False) (get_prop (body req) ''simulated'')
           in io_bind (if \<not> truthy amount then io_return True else io_of (js_le amount (Fin 0)))
                (\<lambda>invalid.
              if invalid
              then error_json 400 ''Valid amount is required''
              else
                io_bind (await stripe (Terminal_Readers_Retrieve readerId)) (\<lambda>reader.
                if \<not> truthy reader
                then error_json 404 ''Reader not found''
                else if \<not> truthy simulated \<and> get_prop reader ''status'' \<noteq> JStr ''online''
                then error_json 400 ''Reader is not online''
                else
                  io_bind (io_of (js_mul amount (Fin 100))) (\<lambda>product.
                  io_bind (await stripe
                             (PaymentIntents_Create
                                (payment_intent_params product currency readerId)))
                    (\<lambda>paymentIntent.
                  io_bind (io_of (member paymentIntent ''id'')) (\<lambda>id.
                  io_bind (await stripe
                             (Terminal_Readers_ProcessPaymentIntent readerId
                                (JObj [(''payment_intent'', id)])))
                    (\<lambda>processedReader.
                  res_json 200
                    (JObj [(''status'', JStr ''success''),
                           (''paymentIntent'', paymentIntent),
                           (''reader'', processedReader)])))))))))
       catch_500"

section \<open>payment-status.routes.js\<close>

text \<open>
  \<^verbatim>\<open>router.get("/:paymentIntentId")\<close>. \<^verbatim>\<open>index.js\<close> mounts the routers of
  \<^verbatim>\<open>payment.routes.js\<close> and \<^verbatim>\<open>reader.routes.js\<close> only: this handler is not a route of the
  application.
\<close>

definition get_payment_status :: "stripe \<Rightarrow> request \<Rightarrow> response io" where
  "get_payment_status stripe req =
     try_catch
       (let paymentIntentId = param req ''paymentIntentId''
        in io_bind (await stripe (PaymentIntents_Retrieve paymentIntentId)) (\<lambda>paymentIntent.
           if \<not> truthy paymentIntent
           then error_json 404 ''Payment intent not found''
           else
             res_json 200 (JObj
               [(''status'', JStr ''success''),
                (''payment_intent'', JObj
                   [(''id'', get_prop paymentIntent ''id''),
                    (''status'', get_prop paymentIntent ''status''),
                    (''amount'', get_prop paymentIntent ''amount''),
                    (''currency'', get_prop paymentIntent ''currency''),
                    (''payment_method'', get_prop paymentIntent ''payment_method''),
                    (''created'', get_prop paymentIntent ''created''),
                    (''metadata'', get_prop paymentIntent ''metadata''),
                    (''last_payment_error'', get_prop paymentIntent ''last_payment_error'')])])))
       catch_500"

section \<open>index.js\<close>

text \<open>\<^verbatim>\<open>app.get('/health')\<close>\<close>

definition get_health :: "request \<Rightarrow> response io" where
  "get_health req = res_json 200 (JObj [(''status'', JStr ''ok'')])"

text \<open>
  The error-handling middleware, which answers for a request that a middleware before the
  routes gave up on (\<^verbatim>\<open>console.error\<close> left out).
\<close>

definition error_middleware :: "js_env \<Rightarrow> js_error \<Rightarrow> response" where
  "error_middleware E err =
     \<lparr>status = 500,
      sent = Json (JObj
        [(''status'', JStr ''error''),
         (''message'', JStr ''Something went wrong!''),
         (''error'',
            if NODE_ENV E = JStr ''development'' then JStr (message err) else JUndefined)])\<rparr>"

text \<open>
  The routes of the application: \<^verbatim>\<open>/health\<close>, the three of \<^verbatim>\<open>reader.routes.js\<close> under
  \<^verbatim>\<open>/api/readers\<close> and the seven of \<^verbatim>\<open>payment.routes.js\<close> under \<^verbatim>\<open>/api/payments\<close>. (The
  Swagger pages under \<^verbatim>\<open>/api-docs\<close> are served by a library and are left out.)
\<close>

datatype endpoint =
    GET_health
  | GET_readers
  | POST_readers_register
  | GET_readers_readerId
  | POST_payments_create_payment_intent
  | POST_payments_capture_payment
  | POST_payments_cancel_payment
  | POST_payments_webhook
  | POST_payments_process_payment
  | POST_payments_simulate_payment
  | POST_payments_create_and_process_payment

fun handler :: "js_env \<Rightarrow> stripe \<Rightarrow> endpoint \<Rightarrow> request \<Rightarrow> response io" where
  "handler E stripe GET_health = get_health"
| "handler E stripe GET_readers = get_readers stripe"
| "handler E stripe POST_readers_register = post_register stripe"
| "handler E stripe GET_readers_readerId = get_reader stripe"
| "handler E stripe POST_payments_create_payment_intent = post_create_payment_intent stripe"
| "handler E stripe POST_payments_capture_payment = post_capture_payment stripe"
| "handler E stripe POST_payments_cancel_payment = post_cancel_payment stripe"
| "handler E stripe POST_payments_webhook = post_webhook E stripe"
| "handler E stripe POST_payments_process_payment = post_process_payment stripe"
| "handler E stripe POST_payments_simulate_payment = post_simulate_payment stripe"
| "handler E stripe POST_payments_create_and_process_payment =
     post_create_and_process_payment stripe"

text \<open>
  Serving one request with its route's handler: the handler runs from an empty list of
  calls. The result is the response sent (\<open>Inl\<close> if the handler threw instead of responding)
  and the SDK calls made, in order.
\<close>

definition serve :: "js_env \<Rightarrow> stripe \<Rightarrow> endpoint \<Rightarrow> request \<Rightarrow> (js_error + response) \<times> sdk_call list" where
  "serve E stripe ep req = handler E stripe ep req []"

text \<open>
  What reaches the routes: \<^verbatim>\<open>app.use(express.json())\<close> and
  \<^verbatim>\<open>app.use(express.urlencoded(...))\<close> come first, for every route. Either they pass the
  request on with its body parsed, or the body does not parse and they pass their error to
  the error-handling middleware, and no handler runs.
\<close>

datatype incoming = Unparsable js_error | Parsed request

definition app :: "js_env \<Rightarrow> stripe \<Rightarrow> endpoint \<Rightarrow> incoming \<Rightarrow> (js_error + response) \<times> sdk_call list" where
  "app E stripe ep inc =
     (case inc of
        Unparsable err \<Rightarrow> (Inr (error_middleware E err), [])
      | Parsed req \<Rightarrow> serve E stripe ep req)"

section \<open>Predicates of the specification\<close>

text \<open>
  The envelope the specification describes: a JSON body whose \<^verbatim>\<open>status\<close> field is
  \<^verbatim>\<open>"success"\<close> on a 2xx response and \<^verbatim>\<open>"error"\<close> on a 4xx or 5xx response.
\<close>

definition envelope :: "response \<Rightarrow> bool" where
  "envelope r =
     (case sent r of
        Text s \<Rightarrow> False
      | Json v \<Rightarrow>
          (200 \<le> status r \<and> status r < 300 \<and> get_prop v ''status'' = JStr ''success'') \<or>
          (400 \<le> status r \<and> status r < 600 \<and> get_prop v ''status'' = JStr ''error''))"

text \<open>
  What is not an event of the service: no event at all, or one of the two payment-intent
  types whose \<^verbatim>\<open>data\<close> or \<^verbatim>\<open>data.object\<close> is missing. (These are the values on which the
  \<^verbatim>\<open>switch\<close> of the webhook handler throws.)
\<close>

definition event_unreadable :: "jsval \<Rightarrow> bool" where
  "event_unreadable event =
     (nullish event \<or>
      (get_prop event ''type'' = JStr ''payment_intent.succeeded'' \<or>
       get_prop event ''type'' = JStr ''payment_intent.payment_failed'') \<and>
      (nullish (get_prop event ''data'') \<or>
       nullish (get_prop (get_prop event ''data'') ''object'')))"

text \<open>A positive Number.\<close>

fun positive :: "jsnum \<Rightarrow> bool" where
  "positive (Fin x) = (0 < x)"
| "positive PosInf = True"
| "positive n = False"

subsection \<open>The SDK calls a request is expected to cause\<close>

text \<open>A call, followed by further calls only if it returns.\<close>

definition and_then :: "stripe \<Rightarrow> sdk_call \<Rightarrow> (jsval \<Rightarrow> sdk_call list) \<Rightarrow> sdk_call list" where
  "and_then stripe c rest = c # (case stripe c of Inl e \<Rightarrow> [] | Inr v \<Rightarrow> rest v)"

text \<open>An amount that passes validation: truthy, and a Number above zero once converted.\<close>

definition amount_accepted :: "jsval \<Rightarrow> bool" where
  "amount_accepted amount =
     (truthy amount \<and>
      (case ToNumber amount of Inl e \<Rightarrow> False | Inr n \<Rightarrow> \<not> num_le n (Fin 0)))"

definition times_100 :: "jsval \<Rightarrow> jsnum" where
  "times_100 amount = (case ToNumber amount of Inl e \<Rightarrow> NaN | Inr n \<Rightarrow> num_mul n (Fin 100))"

text \<open>
  For each route, the calls in the order they are expected: none after a failed check (no
  body to read, a missing registration code, an amount or ID that is not accepted, a reader
  that is missing or, where the route asks for it, not online) and none after a call that
  threw.
\<close>

fun calls_expected :: "js_env \<Rightarrow> stripe \<Rightarrow> endpoint \<Rightarrow> request \<Rightarrow> sdk_call list" where
  "calls_expected E stripe GET_health req = []"
| "calls_expected E stripe GET_readers req = [Terminal_Readers_List]"
| "calls_expected E stripe POST_readers_register req =
     (let simulated = get_prop (body req) ''simulated'';
          registration_code = get_prop (body req) ''registration_code''
      in if nullish (body req) \<or> (\<not> truthy simulated \<and> \<not> truthy registration_code) then []
         else [Terminal_Readers_Create (JObj
                 [(''registration_code'',
                     if truthy simulated then JStr ''simulated-wpe'' else registration_code),
                  (''label'',
                     if truthy (get_prop (body req) ''label'') then get_prop (body req) ''label''
                     else if truthy simulated then JStr ''Simulated Reader'' else JUndefined),
                  (''location'',
                     if truthy (get_prop (body req) ''location'')
                     then get_prop (body req) ''location''
                     else if truthy simulated then JStr ''test_mode'' else JUndefined)])])"
| "calls_expected E stripe GET_readers_readerId req =
     [Terminal_Readers_Retrieve (param req ''readerId'')]"
| "calls_expected E stripe POST_payments_create_payment_intent req =
     (let amount = get_prop (body req) ''amount'';
          readerId = get_prop (body req) ''readerId''
      in if nullish (body req) \<or> \<not> amount_accepted amount \<or> \<not> truthy readerId then []
         else and_then stripe (Terminal_Readers_Retrieve readerId) (\<lambda>reader.
                if truthy reader \<and>
                   (truthy (get_prop (body req) ''simulated'') \<or>
                    get_prop reader ''status'' = JStr ''online'')
                then [PaymentIntents_Create
                        (payment_intent_params (times_100 amount)
                           (default_to (JStr ''usd'') (get_prop (body req) ''currency''))
                           readerId)]
                else []))"
| "calls_expected E stripe POST_payments_capture_payment req =
     [PaymentIntents_Capture (param req ''paymentIntentId'')]"
| "calls_expected E stripe POST_payments_cancel_payment req =
     [PaymentIntents_Cancel (param req ''paymentIntentId'')]"
| "calls_expected E stripe POST_payments_webhook req =
     [Webhooks_ConstructEvent (body req) (header req ''stripe-signature'')
        (STRIPE_WEBHOOK_SECRET E)]"
| "calls_expected E stripe POST_payments_process_payment req =
     (let payment_intent = get_prop (body req) ''payment_intent'';
          readerId = param req ''readerId''
      in if nullish (body req) \<or> \<not> truthy payment_intent then []
         else and_then stripe (Terminal_Readers_Retrieve readerId) (\<lambda>reader.
                if truthy reader \<and> get_prop reader ''status'' = JStr ''online''
                then [Terminal_Readers_ProcessPaymentIntent readerId
                        (JObj [(''payment_intent'', payment_intent)])]
                else []))"
| "calls_expected E stripe POST_payments_simulate_payment req =
     and_then stripe (Terminal_Readers_Retrieve (param req ''readerId'')) (\<lambda>reader.
       if truthy reader
       then [TestHelpers_Terminal_Readers_PresentPaymentMethod (param req ''readerId'')]
       else [])"
| "calls_expected E stripe POST_payments_create_and_process_payment req =
     (let amount = get_prop (body req) ''amount'';
          readerId = param req ''readerId''
      in if nullish (body req) \<or> \<not> amount_accepted amount then []
         else and_then stripe (Terminal_Readers_Retrieve readerId) (\<lambda>reader.
                if truthy reader \<and>
                   (truthy (get_prop (body req) ''simulated'') \<or>
                    get_prop reader ''status'' = JStr ''online'')
                then and_then stripe
                       (PaymentIntents_Create
                          (payment_intent_params (times_100 amount)
                             (default_to (JStr ''usd'') (get_prop (body req) ''currency''))
                             readerId))
                       (\<lambda>paymentIntent.
                          if nullish paymentIntent then []
                          else [Terminal_Readers_ProcessPaymentIntent readerId
                                  (JObj [(''payment_intent'', get_prop paymentIntent ''id'')])])
                else []))"

section \<open>A test double of the SDK, and requests\<close>

text \<open>
  The concrete evaluations below run the handlers against this stand-in for the service. It
  knows one online and one offline reader. Its \<^verbatim>\<open>constructEvent\<close> does as the SDK's: it throws
  on a payload that is not the raw text of the body, and on a signature that does not match;
  for the one raw body and signature it knows, it returns the event that the text denotes.
\<close>

definition env_test :: js_env where
  "env_test = \<lparr>STRIPE_WEBHOOK_SECRET = JStr ''whsec_test'', NODE_ENV = JStr ''production''\<rparr>"

definition reader_online :: jsval where
  "reader_online = JObj [(''id'', JStr ''tmr_online''), (''object'', JStr ''terminal.reader''),
                         (''status'', JStr ''online'')]"

definition reader_offline :: jsval where
  "reader_offline = JObj [(''id'', JStr ''tmr_offline''), (''object'', JStr ''terminal.reader''),
                          (''status'', JStr ''offline'')]"

definition event_succeeded :: jsval where
  "event_succeeded =
     JObj [(''id'', JStr ''evt_2''), (''type'', JStr ''payment_intent.succeeded''),
           (''data'', JObj [(''object'',
              JObj [(''id'', JStr ''pi_1''), (''status'', JStr ''succeeded''),
                    (''amount'', JNum (Fin 100000)), (''currency'', JStr ''usd'')])])]"

definition raw_event_succeeded :: string where
  \<open>raw_event_succeeded =
     ''{"id":"evt_2","type":"payment_intent.succeeded","data":{"object":'' @
     ''{"id":"pi_1","status":"succeeded","amount":100000,"currency":"usd"}}}''\<close>

fun stripe_test :: stripe where
  "stripe_test Terminal_Readers_List =
     Inr (JObj [(''object'', JStr ''list''), (''data'', JArr [reader_online, reader_offline])])"
| "stripe_test (Terminal_Readers_Create p) =
     Inr (JObj [(''id'', JStr ''tmr_new''), (''label'', get_prop p ''label''),
                (''status'', JStr ''offline'')])"
| "stripe_test (Terminal_Readers_Retrieve i) =
     (if i = JStr ''tmr_online'' then Inr reader_online
      else if i = JStr ''tmr_offline'' then Inr reader_offline
      else Inl (Error ''No such terminal.reader''))"
| "stripe_test (Terminal_Readers_ProcessPaymentIntent i p) =
     Inr (JObj [(''id'', i), (''status'', JStr ''online''),
                (''action'', JObj [(''type'', JStr ''process_payment_intent''),
                                   (''process_payment_intent'', p)])])"
| "stripe_test (TestHelpers_Terminal_Readers_PresentPaymentMethod i) = Inr reader_online"
| "stripe_test (PaymentIntents_Create p) =
     Inr (JObj [(''id'', JStr ''pi_1''), (''amount'', get_prop p ''amount''),
                (''currency'', get_prop p ''currency''),
                (''status'', JStr ''requires_payment_method'')])"
| "stripe_test (PaymentIntents_Capture i) =
     Inr (JObj [(''id'', i), (''status'', JStr ''succeeded'')])"
| "stripe_test (PaymentIntents_Cancel i) =
     Inr (JObj [(''id'', i), (''status'', JStr ''canceled'')])"
| "stripe_test (PaymentIntents_Retrieve i) =
     Inr (JObj [(''id'', i), (''status'', JStr ''requires_capture'')])"
| "stripe_test (Webhooks_ConstructEvent payload sig secret) =
     (case payload of
        JStr raw \<Rightarrow>
          if raw = raw_event_succeeded \<and> sig = JStr ''t=1,v1=valid'' \<and>
             secret = JStr ''whsec_test''
          then Inr event_succeeded
          else Inl (Error ''No signatures found matching the expected signature for payload'')
      | _ \<Rightarrow> Inl (Error ''Webhook payload must be provided as a string or a Buffer''))"

text \<open>A service that is unreachable.\<close>

definition stripe_down :: stripe where
  "stripe_down c = Inl (Error ''An error occurred with our connection to Stripe.'')"

definition request_empty :: request where
  "request_empty = \<lparr>params = [], headers = [], body = JObj []\<rparr>"

text \<open>The bodies of \<^verbatim>\<open>test-api.md\<close>.\<close>

definition request_register_simulated :: request where
  "request_register_simulated =
     \<lparr>params = [], headers = [],
      body = JObj [(''simulated'', JBool True), (''label'', JStr ''Test Reader'')]\<rparr>"

definition request_register_no_code :: request where
  "request_register_no_code =
     \<lparr>params = [], headers = [], body = JObj [(''label'', JStr ''Main Store Reader'')]\<rparr>"

definition request_create_intent :: request where
  "request_create_intent =
     \<lparr>params = [], headers = [],
      body = JObj [(''amount'', JNum (Fin 1000)), (''currency'', JStr ''usd''),
                   (''readerId'', JStr ''tmr_online'')]\<rparr>"

definition request_pay :: request where
  "request_pay =
     \<lparr>params = [(''readerId'', ''tmr_online'')], headers = [],
      body = JObj [(''amount'', JNum (Fin 1000)), (''currency'', JStr ''usd'')]\<rparr>"

text \<open>An amount with a fraction, 12.625.\<close>

definition request_pay_fraction :: request where
  "request_pay_fraction =
     \<lparr>params = [(''readerId'', ''tmr_online'')], headers = [],
      body = JObj [(''amount'', JNum (Fin (101 / 8))), (''readerId'', JStr ''tmr_online'')]\<rparr>"

definition request_negative_amount :: request where
  "request_negative_amount =
     \<lparr>params = [(''readerId'', ''tmr_online'')], headers = [],
      body = JObj [(''amount'', JNum (Fin (- 5))), (''readerId'', JStr ''tmr_online'')]\<rparr>"

definition request_no_amount :: request where
  "request_no_amount =
     \<lparr>params = [(''readerId'', ''tmr_online'')], headers = [],
      body = JObj [(''readerId'', JStr ''tmr_online'')]\<rparr>"

definition request_offline_simulated :: request where
  "request_offline_simulated =
     \<lparr>params = [(''readerId'', ''tmr_offline'')], headers = [],
      body = JObj [(''payment_intent'', JStr ''pi_1''), (''amount'', JNum (Fin 1000)),
                   (''readerId'', JStr ''tmr_offline''), (''simulated'', JBool True)]\<rparr>"

text \<open>
  A webhook request with its signature header. As the application is assembled, the body
  that reaches the handler is the parsed one; the raw text is what the handler's call of
  \<^verbatim>\<open>constructEvent\<close> is written for.
\<close>

definition request_webhook :: "string \<Rightarrow> jsval \<Rightarrow> request" where
  "request_webhook signature payload =
     \<lparr>params = [], headers = [(''stripe-signature'', signature)], body = payload\<rparr>"

section \<open>Auxiliary facts\<close>

lemmas io_defs = io_return_def io_bind_def io_of_def try_catch_def await_def res_json_def
  res_send_def catch_500_def error_json_def

lemma defined_prop_not_nullish: "get_prop v k \<noteq> JUndefined \<Longrightarrow> \<not> nullish v"
  by (cases v) (simp_all add: nullish_def)

lemma truthy_prop_not_nullish: "truthy (get_prop v k) \<Longrightarrow> \<not> nullish v"
  by (cases v) (simp_all add: nullish_def)

lemma positive_passes: "positive a \<Longrightarrow> a \<noteq> NaN \<and> a \<noteq> Fin 0 \<and> \<not> num_le a (Fin 0)"
  by (cases a) simp_all

subsection \<open>Multiplying a whole amount by 100 is exact\<close>

lemma round_half_even_of_int: "round_half_even (of_int k) = k"
  by (simp add: round_half_even_def)

lemma fl_of_int:
  assumes "0 < m" and "m < 2 ^ 53"
  shows "fl (of_int m) = Fin (of_int m)"
proof -
  let ?e = "bitlen m - 1"
  let ?k = "nat (52 - ?e)"
  from assms(1) have b1: "1 \<le> bitlen m"
    using bitlen_eq_zero_iff [of m] bitlen_nonneg [of m] by linarith
  from assms(2) have b53: "bitlen m \<le> 53"
    by (simp add: bitlen_le_iff_power)
  from assms(1) have "(1::rat) \<le> of_int m"
    by simp
  then have il: "ilog2 \<bar>of_int m\<bar> = ?e"
    by (simp add: ilog2_def)
  from b1 have mx: "max ?e (- 1022) - 52 = ?e - 52"
    by simp
  from b53 have u: "pow2 (?e - 52) = 1 / 2 ^ ?k"
    by (cases "?e = 52") (simp_all add: pow2_def)
  have q: "\<bar>of_int m :: rat\<bar> / (1 / 2 ^ ?k) = of_int (m * 2 ^ ?k)"
    using assms(1) by simp
  have r: "of_int (round_half_even (\<bar>of_int m\<bar> / (1 / 2 ^ ?k))) * (1 / 2 ^ ?k) =
           (of_int m :: rat)"
    unfolding q round_half_even_of_int by simp
  have "(of_int m :: rat) < 2 ^ 53"
    using assms(2) by (metis of_int_less_numeral_power_cancel_iff)
  also have "(2::rat) ^ 53 \<le> 2 ^ 1024"
    by (rule power_increasing) simp_all
  finally have small: "\<not> pow2 1024 \<le> (of_int m :: rat)"
    by (simp add: pow2_def)
  from assms(1) have nz: "(of_int m :: rat) \<noteq> 0" and sg: "sgn (of_int m :: rat) = 1"
    by simp_all
  show ?thesis
    unfolding fl_def Let_def il mx u r using small nz sg by simp
qed

lemma Math_round_of_int: "Math_round (Fin (of_int k)) = Fin (of_int k)"
proof -
  have "\<lfloor>(of_int k :: rat) + 1 / 2\<rfloor> = k"
    by (simp add: floor_eq_iff)
  then show ?thesis by simp
qed

text \<open>
  A whole amount \<open>n\<close> (cents, by the route's documentation) is forwarded as \<open>100 n\<close>, as
  long as that is below \<open>2\<^sup>5\<^sup>3\<close>.
\<close>

lemma whole_amount_times_100:
  assumes "0 < n" and "n * 100 < 2 ^ 53"
  shows "Math_round (num_mul (Fin (of_int n)) (Fin 100)) = Fin (of_int (n * 100))"
proof -
  from assms(1) have "0 < n * 100" by simp
  from fl_of_int [OF this assms(2)]
  have "fl (of_int n * 100) = Fin (of_int (n * 100))" by simp
  then have "num_mul (Fin (of_int n)) (Fin 100) = Fin (of_int (n * 100))"
    by (simp only: num_mul.simps)
  then show ?thesis
    by (simp only: Math_round_of_int)
qed

lemma forwarded_100000: "Math_round (num_mul (Fin 1000) (Fin 100)) = Fin 100000"
  using whole_amount_times_100 [of 1000] by simp

text \<open>\<^verbatim>\<open>Math.round\<close> in terms of the floor function.\<close>

lemma Math_round_floor:
  "Math_round n = (case n of Fin p \<Rightarrow> Fin (of_int \<lfloor>p + 1 / 2\<rfloor>) | m \<Rightarrow> m)"
  by (cases n) simp_all

text \<open>
  An amount with a fraction is multiplied in binary64. For 12.625 the product 1262.5 is
  exact, and is rounded up. The Number nearest to 0.015 lies below it and its exact
  hundredfold below 1.5, but the product is the Number 1.5 and the amount forwarded is 2.
\<close>

lemma product_1262_5: "num_mul (Fin (101 / 8)) (Fin 100) = Fin (2525 / 2)"
  by code_simp

lemma fractional_amount_rounds_the_product:
  "Math_round (num_mul (Fin (1080863910568919 / 72057594037927936)) (Fin 100)) = Fin 2 \<and>
   \<lfloor>(1080863910568919 / 72057594037927936 * 100 :: rat) + 1 / 2\<rfloor> = 1"
  by code_simp

subsection \<open>Every router handler answers with an envelope, but the webhook's\<close>

lemma get_readers_envelope:
  "\<exists>r. fst (serve E stripe GET_readers req) = Inr r \<and> envelope r"
  by (simp add: serve_def get_readers_def io_defs Let_def envelope_def split: sum.splits)

lemma post_register_envelope:
  "\<exists>r. fst (serve E stripe POST_readers_register req) = Inr r \<and> envelope r"
  by (simp add: serve_def post_register_def io_defs Let_def envelope_def split: sum.splits)

lemma get_reader_envelope:
  "\<exists>r. fst (serve E stripe GET_readers_readerId req) = Inr r \<and> envelope r"
  by (simp add: serve_def get_reader_def io_defs Let_def envelope_def split: sum.splits)

lemma post_create_payment_intent_envelope:
  "\<exists>r. fst (serve E stripe POST_payments_create_payment_intent req) = Inr r \<and> envelope r"
  by (simp add: serve_def post_create_payment_intent_def io_defs Let_def envelope_def js_le_def js_mul_def split: sum.splits)

lemma post_capture_payment_envelope:
  "\<exists>r. fst (serve E stripe POST_payments_capture_payment req) = Inr r \<and> envelope r"
  by (simp add: serve_def post_capture_payment_def io_defs Let_def envelope_def split: sum.splits)

lemma post_cancel_payment_envelope:
  "\<exists>r. fst (serve E stripe POST_payments_cancel_payment req) = Inr r \<and> envelope r"
  by (simp add: serve_def post_cancel_payment_def io_defs Let_def envelope_def split: sum.splits)

lemma post_process_payment_envelope:
  "\<exists>r. fst (serve E stripe POST_payments_process_payment req) = Inr r \<and> envelope r"
  by (simp add: serve_def post_process_payment_def io_defs Let_def envelope_def split: sum.splits)

lemma post_simulate_payment_envelope:
  "\<exists>r. fst (serve E stripe POST_payments_simulate_payment req) = Inr r \<and> envelope r"
  by (simp add: serve_def post_simulate_payment_def io_defs Let_def envelope_def split: sum.splits)

lemma post_create_and_process_payment_envelope:
  "\<exists>r. fst (serve E stripe POST_payments_create_and_process_payment req) = Inr r \<and> envelope r"
  by (simp add: serve_def post_create_and_process_payment_def io_defs Let_def envelope_def js_le_def js_mul_def split: sum.splits)

lemma error_middleware_envelope: "envelope (error_middleware E err)"
  by (simp add: error_middleware_def envelope_def)

subsection \<open>The webhook's switch\<close>

lemma event_response_result:
  "event_response event t = (r, t') \<Longrightarrow> t' = t \<and> (event_unreadable event \<longleftrightarrow> (\<exists>e. r = Inl e))"
  by (auto simp add: event_response_def io_defs member_def event_unreadable_def nullish_def
      split: if_splits sum.splits)

lemma event_response_throws:
  assumes "event_unreadable event"
  shows "\<exists>e. event_response event t = (Inl e, t)"
proof (cases "event_response event t")
  case (Pair r t')
  with event_response_result [OF Pair] assms show ?thesis by auto
qed

lemma event_response_returns:
  assumes "\<not> event_unreadable event"
  shows "\<exists>response. event_response event t = (Inr response, t)"
proof (cases "event_response event t")
  case (Pair r t')
  with event_response_result [OF Pair] assms show ?thesis by (cases r) auto
qed

subsection \<open>The calls of each handler\<close>

lemma get_readers_calls:
  "snd (serve E stripe GET_readers req) = calls_expected E stripe GET_readers req"
  by (simp add: serve_def get_readers_def io_defs split: sum.splits)

lemma post_register_calls:
  "snd (serve E stripe POST_readers_register req) =
   calls_expected E stripe POST_readers_register req"
  by (simp add: serve_def post_register_def io_defs Let_def destructure_def default_to_def
      js_or_def split: sum.splits)

lemma get_reader_calls:
  "snd (serve E stripe GET_readers_readerId req) =
   calls_expected E stripe GET_readers_readerId req"
  by (simp add: serve_def get_reader_def io_defs Let_def split: sum.splits)

lemma post_create_payment_intent_calls:
  "snd (serve E stripe POST_payments_create_payment_intent req) =
   calls_expected E stripe POST_payments_create_payment_intent req"
  by (simp add: serve_def post_create_payment_intent_def io_defs Let_def destructure_def
      default_to_def defaultCurrency_def js_le_def js_mul_def amount_accepted_def times_100_def
      and_then_def split: sum.splits)

lemma post_capture_payment_calls:
  "snd (serve E stripe POST_payments_capture_payment req) =
   calls_expected E stripe POST_payments_capture_payment req"
  by (simp add: serve_def post_capture_payment_def io_defs Let_def split: sum.splits)

lemma post_cancel_payment_calls:
  "snd (serve E stripe POST_payments_cancel_payment req) =
   calls_expected E stripe POST_payments_cancel_payment req"
  by (simp add: serve_def post_cancel_payment_def io_defs Let_def split: sum.splits)

lemma post_webhook_calls:
  "snd (serve E stripe POST_payments_webhook req) =
   calls_expected E stripe POST_payments_webhook req"
  by (simp add: serve_def post_webhook_def event_response_def io_defs Let_def split: sum.splits)

lemma post_process_payment_calls:
  "snd (serve E stripe POST_payments_process_payment req) =
   calls_expected E stripe POST_payments_process_payment req"
  by (simp add: serve_def post_process_payment_def io_defs Let_def destructure_def and_then_def
      split: sum.splits)

lemma post_simulate_payment_calls:
  "snd (serve E stripe POST_payments_simulate_payment req) =
   calls_expected E stripe POST_payments_simulate_payment req"
  by (simp add: serve_def post_simulate_payment_def io_defs Let_def and_then_def
      split: sum.splits)

lemma post_create_and_process_payment_calls:
  "snd (serve E stripe POST_payments_create_and_process_payment req) =
   calls_expected E stripe POST_payments_create_and_process_payment req"
  by (simp add: serve_def post_create_and_process_payment_def io_defs Let_def destructure_def
      default_to_def defaultCurrency_def js_le_def js_mul_def amount_accepted_def times_100_def
      and_then_def member_def split: sum.splits)

subsection \<open>The payment intent a valid request creates\<close>

lemma create_payment_intent_calls:
  assumes "get_prop (body req) ''amount'' = JNum a" and "positive a"
    and "truthy (get_prop (body req) ''readerId'')"
    and "stripe (Terminal_Readers_Retrieve (get_prop (body req) ''readerId'')) = Inr reader"
    and "truthy reader"
    and "truthy (get_prop (body req) ''simulated'') \<or> get_prop reader ''status'' = JStr ''online''"
  shows "snd (serve E stripe POST_payments_create_payment_intent req) =
           [Terminal_Readers_Retrieve (get_prop (body req) ''readerId''),
            PaymentIntents_Create (JObj
              [(''amount'', JNum (Math_round (num_mul a (Fin 100)))),
               (''currency'', default_to (JStr ''usd'') (get_prop (body req) ''currency'')),
               (''payment_method_types'', JArr [JStr ''card_present'']),
               (''capture_method'', JStr ''manual''),
               (''metadata'', JObj [(''readerId'', get_prop (body req) ''readerId'')])])]"
proof -
  from assms(3) have nb: "\<not> nullish (body req)"
    by (rule truthy_prop_not_nullish)
  from assms nb positive_passes [OF assms(2)] show ?thesis
    by (auto simp add: post_create_payment_intent_calls amount_accepted_def times_100_def
        and_then_def payment_intent_params_def Let_def)
qed

lemma create_and_process_payment_calls:
  assumes "get_prop (body req) ''amount'' = JNum a" and "positive a"
    and "stripe (Terminal_Readers_Retrieve (param req ''readerId'')) = Inr reader"
    and "truthy reader"
    and "truthy (get_prop (body req) ''simulated'') \<or> get_prop reader ''status'' = JStr ''online''"
  shows "take 2 (snd (serve E stripe POST_payments_create_and_process_payment req)) =
           [Terminal_Readers_Retrieve (param req ''readerId''),
            PaymentIntents_Create (JObj
              [(''amount'', JNum (Math_round (num_mul a (Fin 100)))),
               (''currency'', default_to (JStr ''usd'') (get_prop (body req) ''currency'')),
               (''payment_method_types'', JArr [JStr ''card_present'']),
               (''capture_method'', JStr ''manual''),
               (''metadata'', JObj [(''readerId'', param req ''readerId'')])])]"
proof -
  from assms(1) have nb: "\<not> nullish (body req)"
    by (intro defined_prop_not_nullish [of _ "''amount''"]) simp
  from assms nb positive_passes [OF assms(2)] show ?thesis
    by (auto simp add: post_create_and_process_payment_calls amount_accepted_def times_100_def
        and_then_def payment_intent_params_def Let_def split: sum.splits)
qed

section \<open>The claims\<close>

subsection \<open>C1: SDK methods per request\<close>

text \<open>
  Claim C1 says that every handler calls exactly one SDK method for every request. A
  request to \<^verbatim>\<open>POST /api/payments/create-and-process-payment/:readerId\<close> for an online
  reader refutes it: the handler retrieves the reader, creates the payment intent and
  processes it, three different methods.
\<close>

theorem create_and_process_payment_calls_three_methods:
  "map method_of
     (snd (serve env_test stripe_test POST_payments_create_and_process_payment request_pay)) =
   [terminal_readers_retrieve, paymentIntents_create, terminal_readers_processPaymentIntent]"
  by (simp add: serve_def post_create_and_process_payment_def io_defs request_pay_def param_def
      destructure_def member_def nullish_def js_le_def js_mul_def default_to_def
      reader_online_def Let_def)

text \<open>
  Claim C1, amended: for every request, a handler makes exactly the SDK calls that
  \<open>calls_expected\<close> lists for its route, in that order, each once. The handlers for the
  reader list, one reader, capture, cancel and the webhook make their one call;
  \<^verbatim>\<open>/health\<close> makes none. Registration calls \<^verbatim>\<open>terminal.readers.create\<close> unless the
  registration code is missing. Simulate-payment calls \<^verbatim>\<open>terminal.readers.retrieve\<close>, then
  \<^verbatim>\<open>presentPaymentMethod\<close>. Process-payment calls \<^verbatim>\<open>retrieve\<close>, then \<^verbatim>\<open>processPaymentIntent\<close>;
  create-payment-intent calls \<^verbatim>\<open>retrieve\<close>, then \<^verbatim>\<open>paymentIntents.create\<close>;
  create-and-process-payment calls \<^verbatim>\<open>retrieve\<close>, then \<^verbatim>\<open>paymentIntents.create\<close>, then
  \<^verbatim>\<open>processPaymentIntent\<close>. In each sequence a call is made only if every call before it
  returned and every check before it passed: a handler makes no call once it has found no
  body to read, an amount, payment intent ID or reader ID that it does not accept, a
  retrieved reader that is missing or (except with \<^verbatim>\<open>simulated\<close> on the creating routes, and
  always on process-payment) not online, a created payment intent that is missing, or once
  a call has thrown.
\<close>

theorem sdk_calls_per_endpoint:
  "snd (serve E stripe ep req) = calls_expected E stripe ep req"
proof (cases ep)
  case GET_health
  then show ?thesis
    by (simp add: serve_def get_health_def io_defs)
qed (simp_all only: get_readers_calls post_register_calls get_reader_calls
    post_create_payment_intent_calls post_capture_payment_calls post_cancel_payment_calls
    post_webhook_calls post_process_payment_calls post_simulate_payment_calls
    post_create_and_process_payment_calls)

theorem sdk_calls_per_endpoint_witness:
  "snd (serve env_test stripe_test POST_payments_create_and_process_payment request_pay) =
     [Terminal_Readers_Retrieve (JStr ''tmr_online''),
      PaymentIntents_Create (JObj
        [(''amount'', JNum (Fin 100000)),
         (''currency'', JStr ''usd''),
         (''payment_method_types'', JArr [JStr ''card_present'']),
         (''capture_method'', JStr ''manual''),
         (''metadata'', JObj [(''readerId'', JStr ''tmr_online'')])]),
      Terminal_Readers_ProcessPaymentIntent (JStr ''tmr_online'')
        (JObj [(''payment_intent'', JStr ''pi_1'')])] \<and>
   snd (serve env_test stripe_down POST_payments_create_and_process_payment request_pay) =
     [Terminal_Readers_Retrieve (JStr ''tmr_online'')] \<and>
   snd (serve env_test stripe_test POST_payments_create_and_process_payment
          request_negative_amount) = []"
  using sdk_calls_per_endpoint
      [of env_test stripe_test POST_payments_create_and_process_payment request_pay]
    sdk_calls_per_endpoint
      [of env_test stripe_down POST_payments_create_and_process_payment request_pay]
    sdk_calls_per_endpoint
      [of env_test stripe_test POST_payments_create_and_process_payment request_negative_amount]
  by (simp add: request_pay_def request_negative_amount_def param_def nullish_def
      amount_accepted_def times_100_def and_then_def payment_intent_params_def default_to_def
      reader_online_def stripe_down_def forwarded_100000 Let_def
      del: Math_round.simps num_mul.simps)

subsection \<open>C2: the JSON envelope\<close>

text \<open>
  Claim C2 says that every response of every endpoint, the webhook's included, is a JSON
  envelope with a \<^verbatim>\<open>status\<close> field. The webhook's answer to a request that does not verify
  refutes it: the body is the plain text \<^verbatim>\<open>Webhook Error: ...\<close>.
\<close>

theorem webhook_failure_body_is_no_envelope:
  "fst (app env_test stripe_test POST_payments_webhook
          (Parsed (request_webhook ''t=1,v1=valid'' event_succeeded))) =
     Inr \<lparr>status = 400,
          sent = Text ''Webhook Error: Webhook payload must be provided as a string or a Buffer''\<rparr> \<and>
   \<not> envelope
       \<lparr>status = 400,
        sent = Text ''Webhook Error: Webhook payload must be provided as a string or a Buffer''\<rparr>"
  by (simp add: app_def serve_def post_webhook_def io_defs Let_def request_webhook_def
      header_def env_test_def event_succeeded_def envelope_def)

text \<open>
  Claim C2, amended: for every request to a route of the \<^verbatim>\<open>/api/readers\<close> and
  \<^verbatim>\<open>/api/payments\<close> routers other than \<^verbatim>\<open>POST /api/payments/webhook\<close>, the response body is a
  JSON envelope whose \<^verbatim>\<open>status\<close> field is \<^verbatim>\<open>"success"\<close> on a 2xx response and \<^verbatim>\<open>"error"\<close> on
  a 4xx or 5xx response; so is the 500 that the error-handling middleware sends, on any
  route, for a body that does not parse. Otherwise the webhook responds 200 with the JSON
  body \<^verbatim>\<open>{received: true}\<close> or 400 with the plain text \<^verbatim>\<open>Webhook Error: <message>\<close>, and
  \<^verbatim>\<open>GET /health\<close> responds 200 with \<^verbatim>\<open>{status: "ok"}\<close>.
\<close>

theorem responses_enveloped_except_webhook_and_health:
  "(ep \<noteq> POST_payments_webhook \<and> ep \<noteq> GET_health \<longrightarrow>
      (\<exists>r. fst (app E stripe ep inc) = Inr r \<and> envelope r)) \<and>
   (\<exists>r. fst (app E stripe POST_payments_webhook inc) = Inr r \<and>
        (r = \<lparr>status = 200, sent = Json (JObj [(''received'', JBool True)])\<rparr> \<or>
         (\<exists>msg. r = \<lparr>status = 400, sent = Text (''Webhook Error: '' @ msg)\<rparr>) \<or>
         (\<exists>err. inc = Unparsable err \<and> r = error_middleware E err))) \<and>
   (\<exists>r. fst (app E stripe GET_health inc) = Inr r \<and>
        (r = \<lparr>status = 200, sent = Json (JObj [(''status'', JStr ''ok'')])\<rparr> \<or>
         (\<exists>err. inc = Unparsable err \<and> r = error_middleware E err))) \<and>
   envelope (error_middleware E err) \<and>
   \<not> envelope \<lparr>status = 200, sent = Json (JObj [(''status'', JStr ''ok'')])\<rparr>"
proof (intro conjI impI)
  assume routes: "ep \<noteq> POST_payments_webhook \<and> ep \<noteq> GET_health"
  show "\<exists>r. fst (app E stripe ep inc) = Inr r \<and> envelope r"
  proof (cases inc)
    case (Unparsable e)
    then show ?thesis
      by (simp add: app_def error_middleware_envelope)
  next
    case (Parsed req)
    have "\<exists>r. fst (serve E stripe ep req) = Inr r \<and> envelope r"
      using routes
      by (cases ep)
        (simp_all only: get_readers_envelope post_register_envelope get_reader_envelope
          post_create_payment_intent_envelope post_capture_payment_envelope
          post_cancel_payment_envelope post_process_payment_envelope
          post_simulate_payment_envelope post_create_and_process_payment_envelope,
          simp_all)
    with Parsed show ?thesis
      by (simp add: app_def)
  qed
next
  show "\<exists>r. fst (app E stripe POST_payments_webhook inc) = Inr r \<and>
        (r = \<lparr>status = 200, sent = Json (JObj [(''received'', JBool True)])\<rparr> \<or>
         (\<exists>msg. r = \<lparr>status = 400, sent = Text (''Webhook Error: '' @ msg)\<rparr>) \<or>
         (\<exists>err. inc = Unparsable err \<and> r = error_middleware E err))"
  proof (cases inc)
    case (Unparsable e)
    then show ?thesis
      by (simp add: app_def)
  next
    case (Parsed req)
    let ?call = "Webhooks_ConstructEvent (body req) (header req ''stripe-signature'')
                   (STRIPE_WEBHOOK_SECRET E)"
    show ?thesis
    proof (cases "stripe ?call")
      case (Inl error)
      with Parsed show ?thesis
        by (simp add: app_def serve_def post_webhook_def io_defs Let_def)
    next
      case (Inr event)
      obtain r t where rt: "event_response event [?call] = (r, t)"
        by (cases "event_response event [?call]")
      with Inr Parsed show ?thesis
        by (cases r) (simp_all add: app_def serve_def post_webhook_def io_defs Let_def)
    qed
  qed
next
  show "\<exists>r. fst (app E stripe GET_health inc) = Inr r \<and>
        (r = \<lparr>status = 200, sent = Json (JObj [(''status'', JStr ''ok'')])\<rparr> \<or>
         (\<exists>err. inc = Unparsable err \<and> r = error_middleware E err))"
    by (cases inc) (simp_all add: app_def serve_def get_health_def io_defs)
next
  show "envelope (error_middleware E err)"
    by (rule error_middleware_envelope)
next
  show "\<not> envelope \<lparr>status = 200, sent = Json (JObj [(''status'', JStr ''ok'')])\<rparr>"
    by (simp add: envelope_def)
qed

theorem responses_enveloped_except_webhook_and_health_witness:
  "GET_readers \<noteq> POST_payments_webhook \<and> GET_readers \<noteq> GET_health \<and>
   (\<exists>r. fst (app env_test stripe_down GET_readers (Parsed request_empty)) = Inr r \<and>
        envelope r \<and> status r = 500) \<and>
   (\<exists>r. fst (app env_test stripe_test GET_readers (Parsed request_empty)) = Inr r \<and>
        envelope r \<and> status r = 200) \<and>
   (\<exists>r. fst (app env_test stripe_test GET_readers
               (Unparsable (Error ''Unexpected end of JSON input''))) = Inr r \<and>
        envelope r \<and> status r = 500)"
  using responses_enveloped_except_webhook_and_health
      [of GET_readers env_test stripe_down "Parsed request_empty"]
    responses_enveloped_except_webhook_and_health
      [of GET_readers env_test stripe_test "Parsed request_empty"]
    responses_enveloped_except_webhook_and_health
      [of GET_readers env_test stripe_test "Unparsable (Error ''Unexpected end of JSON input'')"]
  by (simp add: app_def serve_def get_readers_def io_defs stripe_down_def member_def nullish_def
      error_middleware_def)

subsection \<open>C7: the reader list\<close>

text \<open>
  Claim C7: \<^verbatim>\<open>GET /api/readers\<close> is a pass-through. When \<^verbatim>\<open>stripe.terminal.readers.list\<close>
  returns a result, the handler responds 200 with \<^verbatim>\<open>status: "success"\<close> and, as \<^verbatim>\<open>readers\<close>,
  the result's \<^verbatim>\<open>data\<close> as it is; when the call throws, it responds 500 with
  \<^verbatim>\<open>status: "error"\<close> and the error's message. Either way the SDK is called exactly once.
\<close>

theorem get_readers_pass_through:
  "(stripe Terminal_Readers_List = Inr readers \<and> \<not> nullish readers \<longrightarrow>
      serve E stripe GET_readers req =
        (Inr \<lparr>status = 200,
              sent = Json (JObj [(''status'', JStr ''success''),
                                 (''readers'', get_prop readers ''data'')])\<rparr>,
         [Terminal_Readers_List])) \<and>
   (stripe Terminal_Readers_List = Inl error \<longrightarrow>
      serve E stripe GET_readers req =
        (Inr \<lparr>status = 500,
              sent = Json (JObj [(''status'', JStr ''error''),
                                 (''message'', JStr (message error))])\<rparr>,
         [Terminal_Readers_List])) \<and>
   snd (serve E stripe GET_readers req) = [Terminal_Readers_List]"
  by (simp add: serve_def get_readers_def io_defs member_def split: sum.splits)

theorem get_readers_pass_through_witness:
  "stripe_test Terminal_Readers_List =
     Inr (JObj [(''object'', JStr ''list''), (''data'', JArr [reader_online, reader_offline])]) \<and>
   \<not> nullish (JObj [(''object'', JStr ''list''), (''data'', JArr [reader_online, reader_offline])]) \<and>
   serve env_test stripe_test GET_readers request_empty =
     (Inr \<lparr>status = 200,
           sent = Json (JObj [(''status'', JStr ''success''),
                              (''readers'', JArr [reader_online, reader_offline])])\<rparr>,
      [Terminal_Readers_List]) \<and>
   stripe_down Terminal_Readers_List =
     Inl (Error ''An error occurred with our connection to Stripe.'') \<and>
   serve env_test stripe_down GET_readers request_empty =
     (Inr \<lparr>status = 500,
           sent = Json (JObj [(''status'', JStr ''error''),
             (''message'', JStr ''An error occurred with our connection to Stripe.'')])\<rparr>,
      [Terminal_Readers_List])"
  using get_readers_pass_through [of stripe_test
      "JObj [(''object'', JStr ''list''), (''data'', JArr [reader_online, reader_offline])]"
      env_test request_empty "Error ''''"]
    get_readers_pass_through [of stripe_down JNull env_test request_empty
      "Error ''An error occurred with our connection to Stripe.''"]
  by (simp add: nullish_def stripe_down_def)

subsection \<open>C3: webhook signature verification\<close>

text \<open>
  Claim C3: for every request to \<^verbatim>\<open>POST /api/payments/webhook\<close> the handler calls
  \<^verbatim>\<open>stripe.webhooks.constructEvent\<close> exactly once, with the request body, the
  \<^verbatim>\<open>stripe-signature\<close> header and the configured secret, and calls no other SDK operation:
  there is no second attempt. It responds 400 with the body \<^verbatim>\<open>Webhook Error: <message>\<close>, the
  message being the thrown error's, if and only if \<^verbatim>\<open>constructEvent\<close> throws, and 200
  otherwise. What \<^verbatim>\<open>constructEvent\<close> returns is taken to be an event of the service: an
  object, with its \<^verbatim>\<open>data.object\<close> when it is a payment-intent event.
\<close>

theorem webhook_delegates_verification:
  assumes "\<And>event. stripe (Webhooks_ConstructEvent (body req) (header req ''stripe-signature'')
                               (STRIPE_WEBHOOK_SECRET E)) = Inr event \<Longrightarrow>
                   \<not> event_unreadable event"
  shows "snd (serve E stripe POST_payments_webhook req) =
           [Webhooks_ConstructEvent (body req) (header req ''stripe-signature'')
              (STRIPE_WEBHOOK_SECRET E)] \<and>
         (stripe (Webhooks_ConstructEvent (body req) (header req ''stripe-signature'')
                    (STRIPE_WEBHOOK_SECRET E)) = Inl error \<longrightarrow>
            fst (serve E stripe POST_payments_webhook req) =
              Inr \<lparr>status = 400, sent = Text (''Webhook Error: '' @ message error)\<rparr>) \<and>
         (stripe (Webhooks_ConstructEvent (body req) (header req ''stripe-signature'')
                    (STRIPE_WEBHOOK_SECRET E)) = Inr event \<longrightarrow>
            fst (serve E stripe POST_payments_webhook req) =
              Inr \<lparr>status = 200, sent = Json (JObj [(''received'', JBool True)])\<rparr>) \<and>
         ((\<exists>r. fst (serve E stripe POST_payments_webhook req) = Inr r \<and> status r = 400) \<longleftrightarrow>
          (\<exists>e. stripe (Webhooks_ConstructEvent (body req) (header req ''stripe-signature'')
                         (STRIPE_WEBHOOK_SECRET E)) = Inl e))"
proof -
  let ?call = "Webhooks_ConstructEvent (body req) (header req ''stripe-signature'')
                 (STRIPE_WEBHOOK_SECRET E)"
  have calls: "snd (serve E stripe POST_payments_webhook req) = [?call]"
    by (simp add: post_webhook_calls)
  have throws: "fst (serve E stripe POST_payments_webhook req) =
      Inr \<lparr>status = 400, sent = Text (''Webhook Error: '' @ message e)\<rparr>"
    if "stripe ?call = Inl e" for e
    using that by (simp add: serve_def post_webhook_def io_defs Let_def)
  have returns: "fst (serve E stripe POST_payments_webhook req) =
      Inr \<lparr>status = 200, sent = Json (JObj [(''received'', JBool True)])\<rparr>"
    if "stripe ?call = Inr ev" for ev
  proof -
    from assms [OF that] have "\<not> event_unreadable ev" .
    from event_response_returns [OF this]
    obtain response where "event_response ev [?call] = (Inr response, [?call])" by blast
    with that show ?thesis
      by (simp add: serve_def post_webhook_def io_defs Let_def)
  qed
  have iff: "(\<exists>r. fst (serve E stripe POST_payments_webhook req) = Inr r \<and> status r = 400) \<longleftrightarrow>
      (\<exists>e. stripe ?call = Inl e)"
  proof (cases "stripe ?call")
    case (Inl e)
    with throws [OF Inl] show ?thesis by simp
  next
    case (Inr ev)
    with returns [OF Inr] show ?thesis by simp
  qed
  from calls throws returns iff show ?thesis by blast
qed

theorem webhook_delegates_verification_witness:
  "stripe_test (Webhooks_ConstructEvent event_succeeded (JStr ''t=1,v1=valid'')
                  (JStr ''whsec_test'')) =
     Inl (Error ''Webhook payload must be provided as a string or a Buffer'') \<and>
   serve env_test stripe_test POST_payments_webhook
     (request_webhook ''t=1,v1=valid'' event_succeeded) =
     (Inr \<lparr>status = 400,
           sent = Text ''Webhook Error: Webhook payload must be provided as a string or a Buffer''\<rparr>,
      [Webhooks_ConstructEvent event_succeeded (JStr ''t=1,v1=valid'') (JStr ''whsec_test'')])"
proof -
  let ?req = "request_webhook ''t=1,v1=valid'' event_succeeded"
  have event: "\<not> event_unreadable event"
    if "stripe_test (Webhooks_ConstructEvent (body ?req) (header ?req ''stripe-signature'')
                       (STRIPE_WEBHOOK_SECRET env_test)) = Inr event" for event
    using that by (simp add: request_webhook_def event_succeeded_def)
  from webhook_delegates_verification
      [of stripe_test ?req env_test
        "Error ''Webhook payload must be provided as a string or a Buffer''", OF event]
  show ?thesis
    by (simp add: request_webhook_def header_def env_test_def event_succeeded_def prod_eq_iff)
qed

subsection \<open>C4: the amount is validated before any call\<close>

text \<open>
  Claim C4: for every request to \<^verbatim>\<open>POST /api/payments/create-payment-intent\<close> or to
  \<^verbatim>\<open>POST /api/payments/create-and-process-payment/:readerId\<close> whose body has no \<^verbatim>\<open>amount\<close>
  (or a falsy one: \<^verbatim>\<open>null\<close>, \<^verbatim>\<open>false\<close>, \<^verbatim>\<open>""\<close>, zero), or an \<^verbatim>\<open>amount\<close> that is a Number
  at most zero, the handler responds 400 with
  \<^verbatim>\<open>{status: "error", message: "Valid amount is required"}\<close> and makes no SDK call: no
  reader is retrieved and no payment intent is created.
\<close>

theorem invalid_amount_rejected_before_sdk:
  assumes "ep = POST_payments_create_payment_intent \<or>
           ep = POST_payments_create_and_process_payment"
    and "\<not> nullish (body req)"
    and "\<not> truthy (get_prop (body req) ''amount'') \<or>
         (\<exists>n. get_prop (body req) ''amount'' = JNum n \<and> num_le n (Fin 0))"
  shows "serve E stripe ep req =
           (Inr \<lparr>status = 400,
                 sent = Json (JObj [(''status'', JStr ''error''),
                                    (''message'', JStr ''Valid amount is required'')])\<rparr>, [])"
  using assms
  by (auto simp add: serve_def post_create_payment_intent_def post_create_and_process_payment_def
      io_defs Let_def destructure_def js_le_def)

theorem invalid_amount_rejected_before_sdk_witness:
  "\<not> nullish (body request_negative_amount) \<and>
   get_prop (body request_negative_amount) ''amount'' = JNum (Fin (- 5)) \<and>
   num_le (Fin (- 5)) (Fin 0) \<and>
   serve env_test stripe_test POST_payments_create_payment_intent request_negative_amount =
     (Inr \<lparr>status = 400,
           sent = Json (JObj [(''status'', JStr ''error''),
                              (''message'', JStr ''Valid amount is required'')])\<rparr>, []) \<and>
   \<not> nullish (body request_no_amount) \<and>
   get_prop (body request_no_amount) ''amount'' = JUndefined \<and>
   \<not> truthy JUndefined \<and>
   serve env_test stripe_test POST_payments_create_and_process_payment request_no_amount =
     (Inr \<lparr>status = 400,
           sent = Json (JObj [(''status'', JStr ''error''),
                              (''message'', JStr ''Valid amount is required'')])\<rparr>, [])"
  using invalid_amount_rejected_before_sdk
      [of POST_payments_create_payment_intent request_negative_amount env_test stripe_test]
    invalid_amount_rejected_before_sdk
      [of POST_payments_create_and_process_payment request_no_amount env_test stripe_test]
  by (simp add: request_negative_amount_def request_no_amount_def nullish_def)

subsection \<open>C6: registering a reader\<close>

text \<open>
  Claim C6: \<^verbatim>\<open>POST /api/readers/register\<close> responds 400 with the message
  \<^verbatim>\<open>Registration code is required for physical readers\<close> exactly when the body's
  \<^verbatim>\<open>simulated\<close> flag is false or absent and its \<^verbatim>\<open>registration_code\<close> is missing or empty
  (for a flag and a code of any type: when neither is truthy), and then calls nothing. In
  every other case the handler calls \<^verbatim>\<open>stripe.terminal.readers.create\<close>, once, and does not
  respond 400; with \<^verbatim>\<open>simulated\<close> set, the registration code it passes is
  \<^verbatim>\<open>"simulated-wpe"\<close>, whatever the body's \<^verbatim>\<open>registration_code\<close>.
\<close>

theorem register_requires_code_unless_simulated:
  assumes "\<not> nullish (body req)"
  shows "(\<not> truthy (get_prop (body req) ''simulated'') \<and>
          \<not> truthy (get_prop (body req) ''registration_code'') \<longrightarrow>
            serve E stripe POST_readers_register req =
              (Inr \<lparr>status = 400,
                    sent = Json (JObj [(''status'', JStr ''error''),
                      (''message'', JStr ''Registration code is required for physical readers'')])\<rparr>,
               [])) \<and>
         (truthy (get_prop (body req) ''simulated'') \<or>
          truthy (get_prop (body req) ''registration_code'') \<longrightarrow>
            (\<exists>r readerParams.
               serve E stripe POST_readers_register req =
                 (Inr r, [Terminal_Readers_Create readerParams]) \<and>
               status r \<noteq> 400 \<and>
               get_prop readerParams ''registration_code'' =
                 (if truthy (get_prop (body req) ''simulated'') then JStr ''simulated-wpe''
                  else get_prop (body req) ''registration_code'')))"
  using assms
  by (auto simp add: serve_def post_register_def io_defs Let_def destructure_def default_to_def
      split: sum.splits)

theorem register_requires_code_unless_simulated_witness:
  "\<not> nullish (body request_register_no_code) \<and>
   \<not> truthy (get_prop (body request_register_no_code) ''simulated'') \<and>
   \<not> truthy (get_prop (body request_register_no_code) ''registration_code'') \<and>
   serve env_test stripe_test POST_readers_register request_register_no_code =
     (Inr \<lparr>status = 400,
           sent = Json (JObj [(''status'', JStr ''error''),
             (''message'', JStr ''Registration code is required for physical readers'')])\<rparr>,
      []) \<and>
   \<not> nullish (body request_register_simulated) \<and>
   truthy (get_prop (body request_register_simulated) ''simulated'') \<and>
   (\<exists>r readerParams.
      serve env_test stripe_test POST_readers_register request_register_simulated =
        (Inr r, [Terminal_Readers_Create readerParams]) \<and>
      status r = 201 \<and>
      get_prop readerParams ''registration_code'' = JStr ''simulated-wpe'')"
  using register_requires_code_unless_simulated
      [of request_register_no_code env_test stripe_test]
    register_requires_code_unless_simulated
      [of request_register_simulated env_test stripe_test]
  by (simp add: request_register_no_code_def request_register_simulated_def nullish_def
      serve_def post_register_def io_defs Let_def destructure_def default_to_def js_or_def)

subsection \<open>C8: the amount forwarded to the SDK\<close>

text \<open>
  Claim C8: for a request to \<^verbatim>\<open>POST /api/payments/create-payment-intent\<close> or to
  \<^verbatim>\<open>POST /api/payments/create-and-process-payment/:readerId\<close> with a positive \<^verbatim>\<open>amount\<close>
  \<open>a\<close> that passes validation (a reader ID, a reader that the SDK returns, online unless
  \<^verbatim>\<open>simulated\<close> is set), the second SDK call is \<^verbatim>\<open>stripe.paymentIntents.create\<close> with the
  amount \<^verbatim>\<open>a * 100\<close> rounded to the nearest integer: for the product \<open>p\<close>, the integer
  \<open>\<lfloor>p + 1/2\<rfloor>\<close> (an infinite product stays as it is). The call carries the request's currency
  (\<^verbatim>\<open>"usd"\<close> when it has none), \<^verbatim>\<open>payment_method_types: ["card_present"]\<close>,
  \<^verbatim>\<open>capture_method: "manual"\<close> and \<^verbatim>\<open>metadata.readerId\<close> set to the request's reader ID. The
  amount is multiplied although the route's documentation calls the request's field an
  amount in cents: a whole amount \<open>n\<close> is forwarded as \<open>100 n\<close>, the 1000 of \<^verbatim>\<open>test-api.md\<close>
  as 100000.
\<close>

theorem amount_forwarded_times_100:
  assumes "get_prop (body req) ''amount'' = JNum a" and "positive a"
    and "truthy reader"
    and "truthy (get_prop (body req) ''simulated'') \<or> get_prop reader ''status'' = JStr ''online''"
  shows "(truthy (get_prop (body req) ''readerId'') \<and>
          stripe (Terminal_Readers_Retrieve (get_prop (body req) ''readerId'')) = Inr reader \<longrightarrow>
            snd (serve E stripe POST_payments_create_payment_intent req) =
              [Terminal_Readers_Retrieve (get_prop (body req) ''readerId''),
               PaymentIntents_Create (JObj
                 [(''amount'',
                     JNum (case num_mul a (Fin 100) of
                             Fin p \<Rightarrow> Fin (of_int \<lfloor>p + 1 / 2\<rfloor>) | m \<Rightarrow> m)),
                  (''currency'', default_to (JStr ''usd'') (get_prop (body req) ''currency'')),
                  (''payment_method_types'', JArr [JStr ''card_present'']),
                  (''capture_method'', JStr ''manual''),
                  (''metadata'', JObj [(''readerId'', get_prop (body req) ''readerId'')])])]) \<and>
         (stripe (Terminal_Readers_Retrieve (param req ''readerId'')) = Inr reader \<longrightarrow>
            take 2 (snd (serve E stripe POST_payments_create_and_process_payment req)) =
              [Terminal_Readers_Retrieve (param req ''readerId''),
               PaymentIntents_Create (JObj
                 [(''amount'',
                     JNum (case num_mul a (Fin 100) of
                             Fin p \<Rightarrow> Fin (of_int \<lfloor>p + 1 / 2\<rfloor>) | m \<Rightarrow> m)),
                  (''currency'', default_to (JStr ''usd'') (get_prop (body req) ''currency'')),
                  (''payment_method_types'', JArr [JStr ''card_present'']),
                  (''capture_method'', JStr ''manual''),
                  (''metadata'', JObj [(''readerId'', param req ''readerId'')])])]) \<and>
         (a = Fin (of_int n) \<and> n * 100 < 2 ^ 53 \<longrightarrow>
            (case num_mul a (Fin 100) of Fin p \<Rightarrow> Fin (of_int \<lfloor>p + 1 / 2\<rfloor>) | m \<Rightarrow> m) =
              Fin (of_int (n * 100)))"
proof (intro conjI impI)
  assume "truthy (get_prop (body req) ''readerId'') \<and>
          stripe (Terminal_Readers_Retrieve (get_prop (body req) ''readerId'')) = Inr reader"
  with create_payment_intent_calls [OF assms(1,2) _ _ assms(3,4), of stripe E]
  show "snd (serve E stripe POST_payments_create_payment_intent req) =
          [Terminal_Readers_Retrieve (get_prop (body req) ''readerId''),
           PaymentIntents_Create (JObj
             [(''amount'',
                 JNum (case num_mul a (Fin 100) of
                         Fin p \<Rightarrow> Fin (of_int \<lfloor>p + 1 / 2\<rfloor>) | m \<Rightarrow> m)),
              (''currency'', default_to (JStr ''usd'') (get_prop (body req) ''currency'')),
              (''payment_method_types'', JArr [JStr ''card_present'']),
              (''capture_method'', JStr ''manual''),
              (''metadata'', JObj [(''readerId'', get_prop (body req) ''readerId'')])])]"
    by (simp only: Math_round_floor)
next
  assume "stripe (Terminal_Readers_Retrieve (param req ''readerId'')) = Inr reader"
  with create_and_process_payment_calls [OF assms(1,2) _ assms(3,4), of stripe E]
  show "take 2 (snd (serve E stripe POST_payments_create_and_process_payment req)) =
          [Terminal_Readers_Retrieve (param req ''readerId''),
           PaymentIntents_Create (JObj
             [(''amount'',
                 JNum (case num_mul a (Fin 100) of
                         Fin p \<Rightarrow> Fin (of_int \<lfloor>p + 1 / 2\<rfloor>) | m \<Rightarrow> m)),
              (''currency'', default_to (JStr ''usd'') (get_prop (body req) ''currency'')),
              (''payment_method_types'', JArr [JStr ''card_present'']),
              (''capture_method'', JStr ''manual''),
              (''metadata'', JObj [(''readerId'', param req ''readerId'')])])]"
    by (simp only: Math_round_floor)
next
  assume whole: "a = Fin (of_int n) \<and> n * 100 < 2 ^ 53"
  with assms(2) have "0 < n" by simp
  from whole_amount_times_100 [OF this] whole
  show "(case num_mul a (Fin 100) of Fin p \<Rightarrow> Fin (of_int \<lfloor>p + 1 / 2\<rfloor>) | m \<Rightarrow> m) =
          Fin (of_int (n * 100))"
    by (simp only: Math_round_floor)
qed

theorem amount_forwarded_times_100_witness:
  "get_prop (body request_pay_fraction) ''amount'' = JNum (Fin (101 / 8)) \<and>
   positive (Fin (101 / 8)) \<and>
   truthy reader_online \<and>
   get_prop reader_online ''status'' = JStr ''online'' \<and>
   truthy (get_prop (body request_pay_fraction) ''readerId'') \<and>
   stripe_test (Terminal_Readers_Retrieve (get_prop (body request_pay_fraction) ''readerId'')) =
     Inr reader_online \<and>
   snd (serve env_test stripe_test POST_payments_create_payment_intent request_pay_fraction) =
     [Terminal_Readers_Retrieve (JStr ''tmr_online''),
      PaymentIntents_Create (JObj
        [(''amount'', JNum (Fin 1263)),
         (''currency'', JStr ''usd''),
         (''payment_method_types'', JArr [JStr ''card_present'']),
         (''capture_method'', JStr ''manual''),
         (''metadata'', JObj [(''readerId'', JStr ''tmr_online'')])])] \<and>
   stripe_test (Terminal_Readers_Retrieve (param request_pay_fraction ''readerId'')) =
     Inr reader_online \<and>
   take 2 (snd (serve env_test stripe_test POST_payments_create_and_process_payment
                  request_pay_fraction)) =
     [Terminal_Readers_Retrieve (JStr ''tmr_online''),
      PaymentIntents_Create (JObj
        [(''amount'', JNum (Fin 1263)),
         (''currency'', JStr ''usd''),
         (''payment_method_types'', JArr [JStr ''card_present'']),
         (''capture_method'', JStr ''manual''),
         (''metadata'', JObj [(''readerId'', JStr ''tmr_online'')])])] \<and>
   get_prop (body request_create_intent) ''amount'' = JNum (Fin (of_int 1000)) \<and>
   (1000 :: int) * 100 < 2 ^ 53 \<and>
   snd (serve env_test stripe_test POST_payments_create_payment_intent request_create_intent) =
     [Terminal_Readers_Retrieve (JStr ''tmr_online''),
      PaymentIntents_Create (JObj
        [(''amount'', JNum (Fin 100000)),
         (''currency'', JStr ''usd''),
         (''payment_method_types'', JArr [JStr ''card_present'']),
         (''capture_method'', JStr ''manual''),
         (''metadata'', JObj [(''readerId'', JStr ''tmr_online'')])])]"
proof -
  have half: "\<lfloor>(2525 / 2 :: rat) + 1 / 2\<rfloor> = 1263"
    by (simp add: floor_eq_iff)
  have whole: "(case num_mul (Fin 1000) (Fin 100) of
                  Fin p \<Rightarrow> Fin (of_int \<lfloor>p + 1 / 2\<rfloor>) | m \<Rightarrow> m) = Fin 100000"
    using amount_forwarded_times_100
      [where req = request_create_intent and a = "Fin 1000" and reader = reader_online and
        stripe = stripe_test and E = env_test and n = 1000]
    by (simp add: request_create_intent_def reader_online_def del: num_mul.simps)
  from amount_forwarded_times_100
      [where req = request_pay_fraction and a = "Fin (101 / 8)" and reader = reader_online and
        stripe = stripe_test and E = env_test and n = 0]
    amount_forwarded_times_100
      [where req = request_create_intent and a = "Fin 1000" and reader = reader_online and
        stripe = stripe_test and E = env_test and n = 1000]
  show ?thesis
    by (simp add: request_pay_fraction_def request_create_intent_def reader_online_def
        default_to_def param_def product_1262_5 half whole del: num_mul.simps)
qed

subsection \<open>C9: what the webhook sends back\<close>



subsection \<open>C10: process-payment needs an online reader\<close>

text \<open>
  Claim C10: for every request to \<^verbatim>\<open>POST /api/payments/process-payment/:readerId\<close> (with a
  payment intent ID, so that the reader is retrieved) where the retrieved reader is not null
  and its status is not \<^verbatim>\<open>"online"\<close>, the handler responds 400 with
  \<^verbatim>\<open>{status: "error", message: "Reader is not online"}\<close> and does not call
  \<^verbatim>\<open>processPaymentIntent\<close>, whatever else the body holds: a \<^verbatim>\<open>simulated\<close> flag changes
  nothing. With the same reader, a request with \<^verbatim>\<open>simulated\<close> set and a positive amount
  goes on to \<^verbatim>\<open>stripe.paymentIntents.create\<close> on the two payment-creating routes.
\<close>

theorem process_payment_requires_online_reader:
  assumes "truthy (get_prop (body req) ''payment_intent'')"
    and "stripe (Terminal_Readers_Retrieve (param req ''readerId'')) = Inr reader"
    and "truthy reader"
    and "get_prop reader ''status'' \<noteq> JStr ''online''"
  shows "serve E stripe POST_payments_process_payment req =
           (Inr \<lparr>status = 400,
                 sent = Json (JObj [(''status'', JStr ''error''),
                                    (''message'', JStr ''Reader is not online'')])\<rparr>,
            [Terminal_Readers_Retrieve (param req ''readerId'')]) \<and>
         (truthy (get_prop (body req) ''simulated'') \<and>
          get_prop (body req) ''amount'' = JNum a \<and> positive a \<longrightarrow>
            map method_of
              (take 2 (snd (serve E stripe POST_payments_create_and_process_payment req))) =
              [terminal_readers_retrieve, paymentIntents_create]) \<and>
         (truthy (get_prop (body req) ''simulated'') \<and>
          get_prop (body req) ''amount'' = JNum a \<and> positive a \<and>
          get_prop (body req) ''readerId'' = param req ''readerId'' \<and>
          truthy (param req ''readerId'') \<longrightarrow>
            map method_of (snd (serve E stripe POST_payments_create_payment_intent req)) =
              [terminal_readers_retrieve, paymentIntents_create])"
proof (intro conjI impI)
  from assms(1) have "\<not> nullish (body req)"
    by (rule truthy_prop_not_nullish)
  with assms
  show "serve E stripe POST_payments_process_payment req =
          (Inr \<lparr>status = 400,
                sent = Json (JObj [(''status'', JStr ''error''),
                                   (''message'', JStr ''Reader is not online'')])\<rparr>,
           [Terminal_Readers_Retrieve (param req ''readerId'')])"
    by (simp add: serve_def post_process_payment_def io_defs Let_def destructure_def)
next
  assume "truthy (get_prop (body req) ''simulated'') \<and>
          get_prop (body req) ''amount'' = JNum a \<and> positive a"
  then show "map method_of
               (take 2 (snd (serve E stripe POST_payments_create_and_process_payment req))) =
             [terminal_readers_retrieve, paymentIntents_create]"
    using create_and_process_payment_calls [of req a stripe reader E] assms(2,3) by simp
next
  assume sim: "truthy (get_prop (body req) ''simulated'') \<and>
          get_prop (body req) ''amount'' = JNum a \<and> positive a \<and>
          get_prop (body req) ''readerId'' = param req ''readerId'' \<and>
          truthy (param req ''readerId'')"
  show "map method_of (snd (serve E stripe POST_payments_create_payment_intent req)) =
        [terminal_readers_retrieve, paymentIntents_create]"
    using create_payment_intent_calls [of req a stripe reader E] assms(2,3) sim
    by simp
qed

theorem process_payment_requires_online_reader_witness:
  "truthy (get_prop (body request_offline_simulated) ''payment_intent'') \<and>
   stripe_test (Terminal_Readers_Retrieve (param request_offline_simulated ''readerId'')) =
     Inr reader_offline \<and>
   truthy reader_offline \<and>
   get_prop reader_offline ''status'' \<noteq> JStr ''online'' \<and>
   truthy (get_prop (body request_offline_simulated) ''simulated'') \<and>
   serve env_test stripe_test POST_payments_process_payment request_offline_simulated =
     (Inr \<lparr>status = 400,
           sent = Json (JObj [(''status'', JStr ''error''),
                              (''message'', JStr ''Reader is not online'')])\<rparr>,
      [Terminal_Readers_Retrieve (JStr ''tmr_offline'')]) \<and>
   get_prop (body request_offline_simulated) ''amount'' = JNum (Fin 1000) \<and>
   positive (Fin 1000) \<and>
   get_prop (body request_offline_simulated) ''readerId'' =
     param request_offline_simulated ''readerId'' \<and>
   truthy (param request_offline_simulated ''readerId'') \<and>
   map method_of
     (take 2 (snd (serve env_test stripe_test POST_payments_create_and_process_payment
                     request_offline_simulated))) =
     [terminal_readers_retrieve, paymentIntents_create] \<and>
   map method_of
     (snd (serve env_test stripe_test POST_payments_create_payment_intent
             request_offline_simulated)) =
     [terminal_readers_retrieve, paymentIntents_create]"
  using process_payment_requires_online_reader
      [where req = request_offline_simulated and stripe = stripe_test and
        reader = reader_offline and a = "Fin 1000" and E = env_test]
  by (simp add: request_offline_simulated_def reader_offline_def param_def)

end
